theory Spec2Isabelle
  imports Complex_Main
begin

section \<open>The relational schema (backend/database_schema.sql)\<close>

text \<open>
  A UUID is an abstract identifier, of which only equality is used; a timestamp is a number
  of milliseconds. A column that may be NULL has an option type, a column declared
  \<open>NOT NULL\<close> (or a primary key) does not. The four tables under row-level security all
  begin with the columns \<open>id\<close> and \<open>user_id\<close>, which are the record \<open>owned_row\<close> they extend.
\<close>

type_synonym uuid = nat

type_synonym timestamptz = nat

record users_row =
  id :: uuid
  email :: string
  name :: "string option"
  created_at :: "timestamptz option"
  updated_at :: "timestamptz option"

record owned_row =
  id :: uuid
  user_id :: "uuid option"

record projects_row = owned_row +
  name :: string
  description :: "string option"
  market :: "string option"
  location :: "string option"
  owner :: "string option"
  status :: "string option"
  metadata :: "string option"
  created_at :: "timestamptz option"
  updated_at :: "timestamptz option"

record documents_row = owned_row +
  project_id :: "uuid option"
  file_name :: string
  file_path :: string
  file_size :: "int option"
  file_type :: "string option"
  source_type :: string
  source_id :: "string option"
  processing_status :: "string option"
  chunk_count :: "int option"
  metadata :: "string option"
  created_at :: "timestamptz option"
  processed_at :: "timestamptz option"
  error_message :: "string option"

record document_chunks_row = owned_row +
  document_id :: "uuid option"
  project_id :: "uuid option"
  chunk_index :: int
  content :: string
  embedding :: "real list option"
  token_count :: "int option"
  metadata :: "string option"
  created_at :: "timestamptz option"

record conversation_contexts_row = owned_row +
  conversation_id :: string
  query :: string
  retrieved_chunks :: "uuid list option"
  response :: "string option"
  context_usage_score :: "real option"
  created_at :: "timestamptz option"

record database =
  users :: "users_row list"
  projects :: "projects_row list"
  documents :: "documents_row list"
  document_chunks :: "document_chunks_row list"
  conversation_contexts :: "conversation_contexts_row list"

datatype sql_error =
  DimensionMismatch nat nat
| RowSecurityViolation
| UniqueViolation
| ForeignKeyViolation

subsection \<open>Column types and constraints\<close>

text \<open>\<open>VECTOR(n)\<close>: a value of the column is NULL or a vector of exactly \<open>n\<close> components.\<close>

definition vector_check :: "nat \<Rightarrow> real list option \<Rightarrow> sql_error option" where
  "vector_check n v =
     (case v of
        None \<Rightarrow> None
      | Some xs \<Rightarrow> if length xs = n then None else Some (DimensionMismatch n (length xs)))"

text \<open>The dimension that the column \<open>document_chunks.embedding\<close> declares.\<close>

definition embedding_dimension :: nat where
  "embedding_dimension = 1536"

text \<open>A foreign key that is NULL references nothing and satisfies \<open>REFERENCES\<close>.\<close>

definition refers_to :: "uuid option \<Rightarrow> uuid list \<Rightarrow> bool" where
  "refers_to fk ids = (case fk of None \<Rightarrow> False | Some k \<Rightarrow> k \<in> set ids)"

definition fk_ok :: "uuid option \<Rightarrow> uuid list \<Rightarrow> bool" where
  "fk_ok fk ids = (case fk of None \<Rightarrow> True | Some k \<Rightarrow> k \<in> set ids)"

definition user_ids :: "database \<Rightarrow> uuid list" where
  "user_ids db = map users_row.id (users db)"

definition project_ids :: "database \<Rightarrow> uuid list" where
  "project_ids db = map owned_row.id (projects db)"

definition document_ids :: "database \<Rightarrow> uuid list" where
  "document_ids db = map owned_row.id (documents db)"

text \<open>\<open>PRIMARY KEY\<close> and \<open>UNIQUE\<close>, then \<open>REFERENCES\<close>.\<close>

definition primary_keys_ok :: "database \<Rightarrow> bool" where
  "primary_keys_ok db \<longleftrightarrow>
     distinct (user_ids db) \<and> distinct (map users_row.email (users db)) \<and>
     distinct (project_ids db) \<and> distinct (document_ids db) \<and>
     distinct (map owned_row.id (document_chunks db)) \<and>
     distinct (map owned_row.id (conversation_contexts db))"

definition foreign_keys_ok :: "database \<Rightarrow> bool" where
  "foreign_keys_ok db \<longleftrightarrow>
     list_all (\<lambda>p. fk_ok (user_id p) (user_ids db)) (projects db) \<and>
     list_all (\<lambda>d. fk_ok (user_id d) (user_ids db) \<and>
                    fk_ok (documents_row.project_id d) (project_ids db)) (documents db) \<and>
     list_all (\<lambda>c. fk_ok (user_id c) (user_ids db) \<and>
                    fk_ok (document_id c) (document_ids db) \<and>
                    fk_ok (document_chunks_row.project_id c) (project_ids db))
       (document_chunks db) \<and>
     list_all (\<lambda>x. fk_ok (user_id x) (user_ids db)) (conversation_contexts db)"

subsection \<open>\<open>ON DELETE CASCADE\<close>\<close>

text \<open>
  Removing the rows of a table that satisfy \<open>P\<close>, together with every row that references
  one of them through a foreign key declared \<open>ON DELETE CASCADE\<close>. The cascade follows the
  foreign key alone.
\<close>

definition remove_document_chunks :: "(document_chunks_row \<Rightarrow> bool) \<Rightarrow> database \<Rightarrow> database" where
  "remove_document_chunks P db =
     db\<lparr>document_chunks := filter (\<lambda>c. \<not> P c) (document_chunks db)\<rparr>"

definition remove_conversation_contexts ::
  "(conversation_contexts_row \<Rightarrow> bool) \<Rightarrow> database \<Rightarrow> database" where
  "remove_conversation_contexts P db =
     db\<lparr>conversation_contexts := filter (\<lambda>x. \<not> P x) (conversation_contexts db)\<rparr>"

definition remove_documents :: "(documents_row \<Rightarrow> bool) \<Rightarrow> database \<Rightarrow> database" where
  "remove_documents P db =
     (let gone = map owned_row.id (filter P (documents db))
      in remove_document_chunks (\<lambda>c. refers_to (document_id c) gone)
           (db\<lparr>documents := filter (\<lambda>d. \<not> P d) (documents db)\<rparr>))"

definition remove_projects :: "(projects_row \<Rightarrow> bool) \<Rightarrow> database \<Rightarrow> database" where
  "remove_projects P db =
     (let gone = map owned_row.id (filter P (projects db))
      in remove_document_chunks (\<lambda>c. refers_to (document_chunks_row.project_id c) gone)
           (remove_documents (\<lambda>d. refers_to (documents_row.project_id d) gone)
              (db\<lparr>projects := filter (\<lambda>p. \<not> P p) (projects db)\<rparr>)))"

definition remove_users :: "(users_row \<Rightarrow> bool) \<Rightarrow> database \<Rightarrow> database" where
  "remove_users P db =
     (let gone = map users_row.id (filter P (users db))
      in remove_conversation_contexts (\<lambda>x. refers_to (user_id x) gone)
           (remove_document_chunks (\<lambda>c. refers_to (user_id c) gone)
              (remove_documents (\<lambda>d. refers_to (user_id d) gone)
                 (remove_projects (\<lambda>p. refers_to (user_id p) gone)
                    (db\<lparr>users := filter (\<lambda>u. \<not> P u) (users db)\<rparr>)))))"




subsection \<open>Row-level security\<close>

text \<open>
  \<open>auth.uid()\<close> is the identity of the requester, NULL when there is none. SQL compares with
  three values: a comparison with NULL is unknown, and a policy admits a row only when its
  expression is true.
\<close>

definition sql_eq :: "'a option \<Rightarrow> 'a option \<Rightarrow> bool option" where
  "sql_eq a b = (case a of None \<Rightarrow> None
                 | Some x \<Rightarrow> (case b of None \<Rightarrow> None | Some y \<Rightarrow> Some (x = y)))"

definition sql_true :: "bool option \<Rightarrow> bool" where
  "sql_true v \<longleftrightarrow> v = Some True"

text \<open>The four policies, each \<open>FOR ALL USING (auth.uid() = user_id)\<close>.\<close>

definition projects_policy :: "uuid option \<Rightarrow> projects_row \<Rightarrow> bool" where
  "projects_policy auth_uid r = sql_true (sql_eq auth_uid (user_id r))"

definition documents_policy :: "uuid option \<Rightarrow> documents_row \<Rightarrow> bool" where
  "documents_policy auth_uid r = sql_true (sql_eq auth_uid (user_id r))"

definition document_chunks_policy :: "uuid option \<Rightarrow> document_chunks_row \<Rightarrow> bool" where
  "document_chunks_policy auth_uid r = sql_true (sql_eq auth_uid (user_id r))"

definition conversation_contexts_policy :: "uuid option \<Rightarrow> conversation_contexts_row \<Rightarrow> bool" where
  "conversation_contexts_policy auth_uid r = sql_true (sql_eq auth_uid (user_id r))"

text \<open>
  The statements of a role that is subject to the policies. A policy \<open>FOR ALL\<close> with
  \<open>USING\<close> alone filters the rows that \<open>SELECT\<close>, \<open>UPDATE\<close> and \<open>DELETE\<close> reach, and is the
  check that a row written by \<open>INSERT\<close> or \<open>UPDATE\<close> must pass. \<open>wh\<close> is the \<open>WHERE\<close> clause;
  an inserted row is given with the defaults of its columns filled in. The constraints
  (\<open>checked\<close>) and the cascades are carried out by the system, which the policies do not
  filter. The table \<open>users\<close> has no policy.
\<close>

definition rls_select :: "('r \<Rightarrow> bool) \<Rightarrow> ('r \<Rightarrow> bool) \<Rightarrow> 'r list \<Rightarrow> 'r list" where
  "rls_select policy wh rows = filter (\<lambda>r. policy r \<and> wh r) rows"

definition rls_update :: "('r \<Rightarrow> bool) \<Rightarrow> ('r \<Rightarrow> bool) \<Rightarrow> ('r \<Rightarrow> 'r) \<Rightarrow> 'r list \<Rightarrow> sql_error + 'r list" where
  "rls_update policy wh f rows =
     (if list_all (\<lambda>r. policy r \<and> wh r \<longrightarrow> policy (f r)) rows
      then Inr (map (\<lambda>r. if policy r \<and> wh r then f r else r) rows)
      else Inl RowSecurityViolation)"

definition checked :: "database \<Rightarrow> sql_error + database" where
  "checked db =
     (if \<not> primary_keys_ok db then Inl UniqueViolation
      else if \<not> foreign_keys_ok db then Inl ForeignKeyViolation
      else Inr db)"

definition select_projects :: "uuid option \<Rightarrow> (projects_row \<Rightarrow> bool) \<Rightarrow> database \<Rightarrow> projects_row list" where
  "select_projects auth_uid wh db = rls_select (projects_policy auth_uid) wh (projects db)"

definition select_documents :: "uuid option \<Rightarrow> (documents_row \<Rightarrow> bool) \<Rightarrow> database \<Rightarrow> documents_row list" where
  "select_documents auth_uid wh db = rls_select (documents_policy auth_uid) wh (documents db)"

definition select_document_chunks ::
  "uuid option \<Rightarrow> (document_chunks_row \<Rightarrow> bool) \<Rightarrow> database \<Rightarrow> document_chunks_row list" where
  "select_document_chunks auth_uid wh db =
     rls_select (document_chunks_policy auth_uid) wh (document_chunks db)"

definition select_conversation_contexts ::
  "uuid option \<Rightarrow> (conversation_contexts_row \<Rightarrow> bool) \<Rightarrow> database
     \<Rightarrow> conversation_contexts_row list" where
  "select_conversation_contexts auth_uid wh db =
     rls_select (conversation_contexts_policy auth_uid) wh (conversation_contexts db)"

definition insert_project :: "uuid option \<Rightarrow> projects_row \<Rightarrow> database \<Rightarrow> sql_error + database" where
  "insert_project auth_uid r db =
     (if \<not> projects_policy auth_uid r then Inl RowSecurityViolation
      else checked (db\<lparr>projects := projects db @ [r]\<rparr>))"

definition insert_document :: "uuid option \<Rightarrow> documents_row \<Rightarrow> database \<Rightarrow> sql_error + database" where
  "insert_document auth_uid r db =
     (if \<not> documents_policy auth_uid r then Inl RowSecurityViolation
      else checked (db\<lparr>documents := documents db @ [r]\<rparr>))"

definition insert_document_chunk ::
  "uuid option \<Rightarrow> document_chunks_row \<Rightarrow> database \<Rightarrow> sql_error + database" where
  "insert_document_chunk auth_uid r db =
     (case vector_check embedding_dimension (embedding r) of
        Some e \<Rightarrow> Inl e
      | None \<Rightarrow>
          if \<not> document_chunks_policy auth_uid r then Inl RowSecurityViolation
          else checked (db\<lparr>document_chunks := document_chunks db @ [r]\<rparr>))"

definition insert_conversation_context ::
  "uuid option \<Rightarrow> conversation_contexts_row \<Rightarrow> database \<Rightarrow> sql_error + database" where
  "insert_conversation_context auth_uid r db =
     (if \<not> conversation_contexts_policy auth_uid r then Inl RowSecurityViolation
      else checked (db\<lparr>conversation_contexts := conversation_contexts db @ [r]\<rparr>))"

text \<open>
  The trigger \<open>update_projects_updated_at\<close> runs \<open>update_updated_at_column\<close> before each
  row of \<open>projects\<close> is updated; \<open>now\<close> is \<open>NOW()\<close>.
\<close>

definition update_updated_at_column :: "timestamptz \<Rightarrow> projects_row \<Rightarrow> projects_row" where
  "update_updated_at_column now new = new\<lparr>updated_at := Some now\<rparr>"

definition update_projects ::
  "uuid option \<Rightarrow> timestamptz \<Rightarrow> (projects_row \<Rightarrow> bool) \<Rightarrow> (projects_row \<Rightarrow> projects_row)
     \<Rightarrow> database \<Rightarrow> sql_error + database" where
  "update_projects auth_uid now wh f db =
     (case rls_update (projects_policy auth_uid) wh
             (\<lambda>r. update_updated_at_column now (f r)) (projects db) of
        Inl e \<Rightarrow> Inl e
      | Inr rows \<Rightarrow> checked (db\<lparr>projects := rows\<rparr>))"

definition update_documents ::
  "uuid option \<Rightarrow> (documents_row \<Rightarrow> bool) \<Rightarrow> (documents_row \<Rightarrow> documents_row) \<Rightarrow> database
     \<Rightarrow> sql_error + database" where
  "update_documents auth_uid wh f db =
     (case rls_update (documents_policy auth_uid) wh f (documents db) of
        Inl e \<Rightarrow> Inl e
      | Inr rows \<Rightarrow> checked (db\<lparr>documents := rows\<rparr>))"

text \<open>
  The new embedding is checked against \<open>VECTOR(1536)\<close> for each row that the statement
  reaches, as for a \<open>SET\<close> expression that depends on the row.
\<close>

definition update_document_chunks ::
  "uuid option \<Rightarrow> (document_chunks_row \<Rightarrow> bool) \<Rightarrow> (document_chunks_row \<Rightarrow> document_chunks_row)
     \<Rightarrow> database \<Rightarrow> sql_error + database" where
  "update_document_chunks auth_uid wh f db =
     (case List.map_filter
             (\<lambda>r. if document_chunks_policy auth_uid r \<and> wh r
                  then vector_check embedding_dimension (embedding (f r)) else None)
             (document_chunks db) of
        e # _ \<Rightarrow> Inl e
      | [] \<Rightarrow>
          (case rls_update (document_chunks_policy auth_uid) wh f (document_chunks db) of
             Inl e \<Rightarrow> Inl e
           | Inr rows \<Rightarrow> checked (db\<lparr>document_chunks := rows\<rparr>)))"

definition update_conversation_contexts ::
  "uuid option \<Rightarrow> (conversation_contexts_row \<Rightarrow> bool)
     \<Rightarrow> (conversation_contexts_row \<Rightarrow> conversation_contexts_row) \<Rightarrow> database
     \<Rightarrow> sql_error + database" where
  "update_conversation_contexts auth_uid wh f db =
     (case rls_update (conversation_contexts_policy auth_uid) wh f (conversation_contexts db) of
        Inl e \<Rightarrow> Inl e
      | Inr rows \<Rightarrow> checked (db\<lparr>conversation_contexts := rows\<rparr>))"

definition delete_projects :: "uuid option \<Rightarrow> (projects_row \<Rightarrow> bool) \<Rightarrow> database \<Rightarrow> database" where
  "delete_projects auth_uid wh db =
     remove_projects (\<lambda>r. projects_policy auth_uid r \<and> wh r) db"

definition delete_documents :: "uuid option \<Rightarrow> (documents_row \<Rightarrow> bool) \<Rightarrow> database \<Rightarrow> database" where
  "delete_documents auth_uid wh db =
     remove_documents (\<lambda>r. documents_policy auth_uid r \<and> wh r) db"

definition delete_document_chunks ::
  "uuid option \<Rightarrow> (document_chunks_row \<Rightarrow> bool) \<Rightarrow> database \<Rightarrow> database" where
  "delete_document_chunks auth_uid wh db =
     remove_document_chunks (\<lambda>r. document_chunks_policy auth_uid r \<and> wh r) db"

definition delete_conversation_contexts ::
  "uuid option \<Rightarrow> (conversation_contexts_row \<Rightarrow> bool) \<Rightarrow> database \<Rightarrow> database" where
  "delete_conversation_contexts auth_uid wh db =
     remove_conversation_contexts (\<lambda>r. conversation_contexts_policy auth_uid r \<and> wh r) db"


section \<open>The environment templates\<close>

text \<open>
  An environment file is a list of \<open>KEY=value\<close> lines, read as a dictionary; only the keys
  of the RAG sections are kept. \<open>rag_system_env\<close> is the template of the RAG system, the
  application that the schema above belongs to. \<open>agent_ecosystem_env\<close> is the template of the
  other application of the repository, the agent ecosystem, which has a database of its
  own and no table \<open>document_chunks\<close>.
\<close>

definition rag_system_env :: "(string \<times> string) list" where
  "rag_system_env =
     [(''EMBEDDING_MODEL'', ''text-embedding-3-small''),
      (''EMBEDDING_DIMENSION'', ''1536''),
      (''MAX_CHUNK_SIZE'', ''1000''),
      (''CHUNK_OVERLAP'', ''200''),
      (''MAX_FILE_SIZE_MB'', ''50''),
      (''DEFAULT_SIMILARITY_THRESHOLD'', ''0.7''),
      (''MAX_SEARCH_RESULTS'', ''10'')]"

definition agent_ecosystem_env :: "(string \<times> string) list" where
  "agent_ecosystem_env =
     [(''EMBEDDING_MODEL'', ''all-MiniLM-L6-v2''),
      (''CHUNK_SIZE'', ''1000''),
      (''CHUNK_OVERLAP'', ''200''),
      (''MAX_TOKENS'', ''4000'')]"

definition getenv :: "(string \<times> string) list \<Rightarrow> string \<Rightarrow> string option" where
  "getenv env key = map_of env key"


section \<open>The Retriever\<close>

text \<open>
  Modelled from the spec: the error of the Retriever (sections 4.3 and 7) and the order of
  its results, descending score with ties broken by ascending sequence index. The
  repository has no code for the Retriever; a chunk is a row of \<open>document_chunks\<close>.
\<close>

datatype retrieve_error = InvalidArgument

definition ranks_before :: "document_chunks_row \<times> real \<Rightarrow> document_chunks_row \<times> real \<Rightarrow> bool" where
  "ranks_before a b \<longleftrightarrow>
     snd b < snd a \<or> (snd a = snd b \<and> chunk_index (fst a) \<le> chunk_index (fst b))"

fun insert_ranked ::
  "document_chunks_row \<times> real \<Rightarrow> (document_chunks_row \<times> real) list
     \<Rightarrow> (document_chunks_row \<times> real) list" where
  "insert_ranked a [] = [a]"
| "insert_ranked a (b # bs) = (if ranks_before a b then a # b # bs else b # insert_ranked a bs)"

definition rank :: "(document_chunks_row \<times> real) list \<Rightarrow> (document_chunks_row \<times> real) list" where
  "rank rs = foldr insert_ranked rs []"

definition in_scope :: "uuid set \<Rightarrow> document_chunks_row \<Rightarrow> bool" where
  "in_scope project_scope c =
     (case document_chunks_row.project_id c of None \<Rightarrow> False | Some p \<Rightarrow> p \<in> project_scope)"

text \<open>
  Modelled from the spec: the Retriever of section 4.3, \<open>retrieve(query, project_scope, k,
  similarity_threshold)\<close>, for which the repository has no code. The embedding provider
  (\<open>embedder\<close>) and the vector store's \<open>query(vector, k, filter)\<close> are the external
  capabilities of section 6, taken as parameters. An empty scope returns the empty
  sequence: section 8 says that it always does, regardless of corpus contents, and section
  4.3 that the scope restriction must fail closed, so no other sentence of the contract
  applies to it. For a scope that is not empty, \<open>k \<le> 0\<close> fails with \<open>InvalidArgument\<close>;
  otherwise the store is queried restricted to the scope, results with
  \<open>score < similarity_threshold\<close> are dropped, and the rest is returned in rank order.
\<close>

definition retrieve ::
  "(string \<Rightarrow> real list)
     \<Rightarrow> (real list \<Rightarrow> nat \<Rightarrow> (document_chunks_row \<Rightarrow> bool) \<Rightarrow> (document_chunks_row \<times> real) list)
     \<Rightarrow> string \<Rightarrow> uuid set \<Rightarrow> int \<Rightarrow> real
     \<Rightarrow> retrieve_error + (document_chunks_row \<times> real) list" where
  "retrieve embedder store_query q project_scope k similarity_threshold =
     (if project_scope = {} then Inr []
      else if k \<le> 0 then Inl InvalidArgument
      else Inr (rank (filter (\<lambda>r. \<not> snd r < similarity_threshold)
                        (store_query (embedder q) (nat k) (in_scope project_scope)))))"


section \<open>JavaScript strings\<close>

text \<open>
  A JavaScript string is modelled as a HOL \<^typ>\<open>string\<close>; one \<^typ>\<open>char\<close> stands for
  one code unit in the range 0..255, so \<open>length\<close> is the \<open>.length\<close> of such a string.
  \<open>isWhiteSpace\<close> holds the code units of that range that \<open>String.prototype.trim\<close> strips
  and that the class \<open>\s\<close> of a regular expression matches: TAB, LF, VT, FF, CR, SPACE and
  NBSP.
\<close>

definition isWhiteSpace :: "char \<Rightarrow> bool" where
  "isWhiteSpace c \<longleftrightarrow>
     c \<in> set [CHR 0x09, CHR 0x0A, CHR 0x0B, CHR 0x0C, CHR 0x0D, CHR 0x20, CHR 0xA0]"

definition trim :: "string \<Rightarrow> string" where
  "trim s = rev (dropWhile isWhiteSpace (rev (dropWhile isWhiteSpace s)))"

text \<open>\<open>a || b\<close> on an optional string: \<open>undefined\<close> and the empty string are falsy.\<close>

definition js_or :: "string option \<Rightarrow> string \<Rightarrow> string" where
  "js_or a b = (case a of None \<Rightarrow> b | Some s \<Rightarrow> if s = [] then b else s)"

text \<open>
  The decimal rendering of a non-negative integer, as a template literal prints it below
  \<open>1e21\<close>; it is used for \<open>Date.now()\<close> only.
\<close>

fun toString_nat :: "nat \<Rightarrow> string" where
  "toString_nat n =
     (if n < 10 then [''0123456789'' ! n]
      else toString_nat (n div 10) @ [''0123456789'' ! (n mod 10)])"

declare toString_nat.simps [simp del]


section \<open>The types of the frontend (types/index.ts)\<close>

datatype theme = light | dark

datatype energyUnits = metric | imperial

record UserPreferences =
  theme :: "theme option"
  notifications :: "bool option"
  energyUnits :: "energyUnits option"

text \<open>
  \<open>id\<close> is not declared by the interface \<open>User\<close>; \<open>createNewConversation\<close> reads it with
  \<open>user?.id\<close>, so it is kept as a property that may be absent.
\<close>

record User =
  user_id :: string
  name :: string
  email :: string
  id :: "string option"
  interests :: "string list option"
  registered_at :: "string option"
  preferences :: "UserPreferences option"

text \<open>
  A JavaScript \<open>number\<close> is the type parameter \<open>'n\<close>. \<open>result\<close> is optional because the
  code tests it against \<open>undefined\<close>; \<open>units\<close> is read by \<open>handleSendMessage\<close> although the
  interface does not declare it.
\<close>

record 'n MathResponse =
  result :: "'n option"
  operation :: string
  explanation :: string
  renewable_context :: string
  confidence :: 'n
  environmental_impact :: "string option"
  units :: "string option"

datatype sender = SenderUser | SenderAssistant

record 'n ChatMessage =
  id :: string
  content :: string
  sender :: sender
  timestamp :: nat
  mathResponse :: "'n MathResponse option"

record 'n Conversation =
  id :: string
  userId :: string
  messages :: "'n ChatMessage list"
  createdAt :: nat
  updatedAt :: nat

record 'd ApiResponse =
  success :: bool
  data :: "'d option"
  error :: "string option"
  message :: "string option"

text \<open>The payload of a chat response, as \<open>apiService.sendMessage\<close> types it.\<close>

record 'n ChatData =
  response :: string
  math_response :: "'n MathResponse option"

record ChatRequest =
  message :: string
  userId :: string
  conversationId :: "string option"

record RegistrationRequest =
  name :: string
  email :: string

record 'n AppState =
  user :: "User option"
  currentConversation :: "'n Conversation option"
  conversations :: "'n Conversation list"
  isLoading :: bool
  error :: "string option"


section \<open>The store (stores/appStore.ts)\<close>

text \<open>
  Every action is a function from the state to the state that \<open>set\<close> leaves: \<open>set\<close> merges
  the returned partial object into the state, so the fields an action does not name keep
  their values. \<open>new Date()\<close> is the parameter \<open>now\<close>.
\<close>

definition initialState :: "'n AppState" where
  "initialState = \<lparr>user = None, currentConversation = None, conversations = [],
     isLoading = False, AppState.error = None\<rparr>"

definition setUser :: "User option \<Rightarrow> 'n AppState \<Rightarrow> 'n AppState" where
  "setUser u st = st\<lparr>user := u\<rparr>"

definition setCurrentConversation ::
  "'n Conversation option \<Rightarrow> 'n AppState \<Rightarrow> 'n AppState" where
  "setCurrentConversation c st = st\<lparr>currentConversation := c\<rparr>"

definition addConversation :: "'n Conversation \<Rightarrow> 'n AppState \<Rightarrow> 'n AppState" where
  "addConversation conversation st =
     st\<lparr>conversations := conversation # conversations st,
        currentConversation := Some conversation\<rparr>"

definition updateConversation :: "'n Conversation \<Rightarrow> 'n AppState \<Rightarrow> 'n AppState" where
  "updateConversation updatedConversation st =
     st\<lparr>conversations :=
          map (\<lambda>conv. if Conversation.id conv = Conversation.id updatedConversation
                      then updatedConversation else conv) (conversations st),
        currentConversation :=
          (case currentConversation st of
             None \<Rightarrow> None
           | Some c \<Rightarrow> if Conversation.id c = Conversation.id updatedConversation
                       then Some updatedConversation else Some c)\<rparr>"

definition addMessage :: "nat \<Rightarrow> 'n ChatMessage \<Rightarrow> 'n AppState \<Rightarrow> 'n AppState" where
  "addMessage now m st =
     (case currentConversation st of
        None \<Rightarrow> st
      | Some c \<Rightarrow>
          let updatedConversation = c\<lparr>messages := messages c @ [m], updatedAt := now\<rparr>
          in st\<lparr>currentConversation := Some updatedConversation,
                conversations :=
                  map (\<lambda>conv. if Conversation.id conv = Conversation.id updatedConversation
                              then updatedConversation else conv) (conversations st)\<rparr>)"

definition setLoading :: "bool \<Rightarrow> 'n AppState \<Rightarrow> 'n AppState" where
  "setLoading loading st = st\<lparr>isLoading := loading\<rparr>"

definition setError :: "string option \<Rightarrow> 'n AppState \<Rightarrow> 'n AppState" where
  "setError e st = st\<lparr>AppState.error := e\<rparr>"

definition clearError :: "'n AppState \<Rightarrow> 'n AppState" where
  "clearError st = st\<lparr>AppState.error := None\<rparr>"

definition reset :: "'n AppState \<Rightarrow> 'n AppState" where
  "reset st = initialState"


section \<open>The chat call of the API service (services/api.ts)\<close>

text \<open>
  The backend is outside the frontend: \<open>api.post('/chat', chatData)\<close> either resolves with
  the body of the HTTP response or rejects; a rejection carries
  \<open>error.response?.data?.message\<close>, which may be absent.
\<close>

datatype 'a http_outcome = Resolved 'a | Rejected "string option"

text \<open>\<open>sendMessage\<close> returns the body, or throws an \<open>Error\<close> whose message is \<open>Inl\<close>.\<close>

definition sendMessage ::
  "(ChatRequest \<Rightarrow> 'd ApiResponse http_outcome) \<Rightarrow> ChatRequest \<Rightarrow> string + 'd ApiResponse" where
  "sendMessage post chatData =
     (case post chatData of
        Resolved body \<Rightarrow> Inr body
      | Rejected m \<Rightarrow> Inl (js_or m ''Failed to send message''))"


section \<open>ChatInterface.handleSendMessage\<close>

text \<open>
  What the handler reads from outside: the clock at the moment each object is built
  (\<open>Date.now()\<close> and \<open>new Date()\<close>), the random suffix of a new conversation id
  (\<open>Math.random().toString(36).substr(2, 9)\<close>) and the rendering of a number in a template
  literal.
\<close>

record 'n handler_env =
  now_conversation :: nat
  random_suffix :: string
  now_userMessage :: nat
  now_userAdded :: nat
  now_reply :: nat
  now_replyAdded :: nat
  number_toString :: "'n \<Rightarrow> string"

definition createNewConversation :: "'n handler_env \<Rightarrow> User option \<Rightarrow> 'n Conversation" where
  "createNewConversation env u =
     \<lparr>Conversation.id = ''conv_'' @ toString_nat (now_conversation env) @ ''_'' @ random_suffix env,
      Conversation.userId = js_or (case u of None \<Rightarrow> None | Some x \<Rightarrow> User.id x) ''anonymous'',
      messages = [],
      createdAt = now_conversation env,
      updatedAt = now_conversation env\<rparr>"

text \<open>
  The text of the assistant message for a successful response, in the order of the
  \<open>if\<close>/\<open>else if\<close> chain: a string is truthy when it is not empty.
\<close>

definition fallbackMessage :: string where
  "fallbackMessage = ''I received your message but couldn't generate a proper response. Please try asking about renewable energy topics or math calculations.''"

definition responseContent :: "'n ChatData \<Rightarrow> string" where
  "responseContent responseData =
     (if response responseData \<noteq> [] then response responseData
      else if (case math_response responseData of
                 None \<Rightarrow> False
               | Some m \<Rightarrow> renewable_context m \<noteq> [] \<and> renewable_context m \<noteq> ''N/A'')
           then renewable_context (the (math_response responseData))
      else if (case math_response responseData of
                 None \<Rightarrow> False
               | Some m \<Rightarrow> explanation m \<noteq> [] \<and> explanation m \<noteq> ''N/A'')
           then explanation (the (math_response responseData))
      else fallbackMessage)"

text \<open>The calculation details appended to the text when the math response names an operation.\<close>

definition calculationDetails :: "('n \<Rightarrow> string) \<Rightarrow> 'n MathResponse option \<Rightarrow> string" where
  "calculationDetails render mathData =
     (case mathData of
        None \<Rightarrow> []
      | Some m \<Rightarrow>
          (case result m of
             None \<Rightarrow> []
           | Some r \<Rightarrow>
               if operation m \<noteq> [] \<and> operation m \<noteq> ''N/A'' \<and> operation m \<noteq> ''information''
               then [CHR 0x0A, CHR 0x0A] @ ''Calculation: '' @ operation m @ '' = '' @ render r
                    @ (case units m of
                         None \<Rightarrow> []
                       | Some u \<Rightarrow> if u = [] then [] else '' '' @ u)
               else []))"

definition assistantMessage :: "'n handler_env \<Rightarrow> 'n ChatData \<Rightarrow> 'n ChatMessage" where
  "assistantMessage env responseData =
     \<lparr>ChatMessage.id = ''msg_'' @ toString_nat (now_reply env) @ ''_assistant'',
      content = responseContent responseData
                @ calculationDetails (number_toString env) (math_response responseData),
      sender = SenderAssistant,
      timestamp = now_reply env,
      mathResponse = math_response responseData\<rparr>"

text \<open>The \<open>catch\<close> block: the error is stored and shown as an assistant message.\<close>

definition errorMessage :: "'n handler_env \<Rightarrow> string \<Rightarrow> 'n ChatMessage" where
  "errorMessage env msg =
     \<lparr>ChatMessage.id = ''msg_'' @ toString_nat (now_reply env) @ ''_error'',
      content = ''I apologize, but I encountered an error: '' @ msg @ ''. Please try again.'',
      sender = SenderAssistant,
      timestamp = now_reply env,
      mathResponse = None\<rparr>"

definition catchError :: "'n handler_env \<Rightarrow> string \<Rightarrow> 'n AppState \<Rightarrow> 'n AppState" where
  "catchError env msg st =
     addMessage (now_replyAdded env) (errorMessage env msg)
       (setError (Some (js_or (Some msg) ''Failed to send message'')) st)"

text \<open>
  The argument of \<open>apiService.sendMessage\<close>, and the JSON object that \<open>api.post\<close> sends for
  it (every value is a string; \<open>JSON.stringify\<close> leaves out a property that is
  \<open>undefined\<close>).
\<close>

definition chatRequest :: "User \<Rightarrow> 'n Conversation \<Rightarrow> string \<Rightarrow> ChatRequest" where
  "chatRequest u conversation messageContent =
     \<lparr>ChatRequest.message = messageContent,
      ChatRequest.userId = user_id u,
      conversationId = Some (Conversation.id conversation)\<rparr>"

definition requestBody :: "ChatRequest \<Rightarrow> (string \<times> string) list" where
  "requestBody chatData =
     [(''message'', ChatRequest.message chatData), (''userId'', ChatRequest.userId chatData)]
     @ (case conversationId chatData of
          None \<Rightarrow> []
        | Some c \<Rightarrow> [(''conversationId'', c)])"

text \<open>
  The handler in the order of its statements. \<open>conversationFor\<close> is the conversation the
  message goes to, a new one when the store has none; \<open>beforeRequest\<close> is the store when
  the request is sent (loading, error cleared, the conversation added if new, the user
  message appended); \<open>afterResponse\<close> is the rest of the \<open>try\<close> block with its \<open>catch\<close>, on
  what \<open>sendMessage\<close> returned or threw; \<open>finally\<close> clears the loading flag.
\<close>

definition conversationFor :: "'n handler_env \<Rightarrow> User \<Rightarrow> 'n AppState \<Rightarrow> 'n Conversation" where
  "conversationFor env u st =
     (case currentConversation st of
        None \<Rightarrow> createNewConversation env (Some u)
      | Some c \<Rightarrow> c)"

definition userMessage :: "'n handler_env \<Rightarrow> string \<Rightarrow> 'n ChatMessage" where
  "userMessage env messageContent =
     \<lparr>ChatMessage.id = ''msg_'' @ toString_nat (now_userMessage env) @ ''_user'',
      content = messageContent,
      sender = SenderUser,
      timestamp = now_userMessage env,
      mathResponse = None\<rparr>"

definition beforeRequest :: "'n handler_env \<Rightarrow> User \<Rightarrow> string \<Rightarrow> 'n AppState \<Rightarrow> 'n AppState" where
  "beforeRequest env u messageContent st =
     addMessage (now_userAdded env) (userMessage env messageContent)
       (case currentConversation st of
          None \<Rightarrow> addConversation (conversationFor env u st) (clearError (setLoading True st))
        | Some c \<Rightarrow> clearError (setLoading True st))"

definition afterResponse ::
  "'n handler_env \<Rightarrow> string + 'n ChatData ApiResponse \<Rightarrow> 'n AppState \<Rightarrow> 'n AppState" where
  "afterResponse env outcome st =
     (case outcome of
        Inl msg \<Rightarrow> catchError env msg st
      | Inr r \<Rightarrow>
          (case data r of
             Some responseData \<Rightarrow>
               if success r
               then addMessage (now_replyAdded env) (assistantMessage env responseData) st
               else catchError env (js_or (ApiResponse.error r) ''Failed to get response'') st
           | None \<Rightarrow> catchError env (js_or (ApiResponse.error r) ''Failed to get response'') st))"

definition handleSendMessage ::
  "'n handler_env \<Rightarrow> (ChatRequest \<Rightarrow> 'n ChatData ApiResponse http_outcome) \<Rightarrow> string
     \<Rightarrow> 'n AppState \<Rightarrow> 'n AppState" where
  "handleSendMessage env post messageContent st =
     (case user st of
        None \<Rightarrow> st
      | Some u \<Rightarrow>
          if trim messageContent = [] then st
          else setLoading False
                 (afterResponse env
                    (sendMessage post (chatRequest u (conversationFor env u st) messageContent))
                    (beforeRequest env u messageContent st)))"

text \<open>
  The confidence that a chat payload carries: the field of its \<open>math_response\<close>, the only
  confidence that the types declare.
\<close>

definition response_confidence :: "'n ChatData \<Rightarrow> 'n option" where
  "response_confidence responseData = map_option confidence (math_response responseData)"


section \<open>ChatInput.handleSubmit\<close>

text \<open>
  The component state is the text of the input; the props are \<open>isLoading\<close> and \<open>disabled\<close>.
  The result is the list of arguments with which \<open>onSendMessage\<close> was called, in order, and
  the text the input holds afterwards.
\<close>

definition ChatInput_handleSubmit :: "bool \<Rightarrow> bool \<Rightarrow> string \<Rightarrow> string list \<times> string" where
  "ChatInput_handleSubmit loading disabled msg =
     (if trim msg = [] \<or> loading \<or> disabled then ([], msg)
      else ([trim msg], []))"

definition canSend :: "bool \<Rightarrow> bool \<Rightarrow> string \<Rightarrow> bool" where
  "canSend loading disabled msg \<longleftrightarrow> length (trim msg) > 0 \<and> \<not> loading \<and> \<not> disabled"


section \<open>UserRegistration.validateForm and handleSubmit\<close>

text \<open>
  The regular expressions the form needs are sequences of items, each a character class
  taken once or one or more times (\<open>+\<close>). \<open>rx_test\<close> is \<open>RegExp.prototype.test\<close> for such a
  sequence between \<open>^\<close> and \<open>$\<close> without flags: the whole string must match.
\<close>

datatype rx_item = One "char \<Rightarrow> bool" | OneOrMore "char \<Rightarrow> bool"

fun rx_test :: "rx_item list \<Rightarrow> string \<Rightarrow> bool" where
  "rx_test [] s = (s = [])"
| "rx_test (One p # r) [] = False"
| "rx_test (One p # r) (c # cs) = (p c \<and> rx_test r cs)"
| "rx_test (OneOrMore p # r) [] = False"
| "rx_test (OneOrMore p # r) (c # cs) =
     (p c \<and> (rx_test (OneOrMore p # r) cs \<or> rx_test r cs))"

text \<open>The class \<open>[^\s@]\<close>.\<close>

definition notSpaceOrAt :: "char \<Rightarrow> bool" where
  "notSpaceOrAt c \<longleftrightarrow> \<not> isWhiteSpace c \<and> c \<noteq> CHR ''@''"

text \<open>The pattern \<open>/^[^\s@]+@[^\s@]+\.[^\s@]+$/\<close>.\<close>

definition emailPattern :: "rx_item list" where
  "emailPattern =
     [OneOrMore notSpaceOrAt, One (\<lambda>c. c = CHR ''@''), OneOrMore notSpaceOrAt,
      One (\<lambda>c. c = CHR ''.''), OneOrMore notSpaceOrAt]"

text \<open>\<open>Partial<RegistrationRequest>\<close>: a field is present when an error was recorded.\<close>

record RegistrationErrors =
  name :: "string option"
  email :: "string option"

text \<open>\<open>validateForm\<close> returns its verdict and the errors it hands to \<open>setErrors\<close>.\<close>

definition validateForm :: "RegistrationRequest \<Rightarrow> bool \<times> RegistrationErrors" where
  "validateForm formData =
     (let nameError =
            (if trim (RegistrationRequest.name formData) = [] then Some ''Name is required''
             else if length (trim (RegistrationRequest.name formData)) < 2
                  then Some ''Name must be at least 2 characters''
             else None);
          emailError =
            (if trim (RegistrationRequest.email formData) = [] then Some ''Email is required''
             else if \<not> rx_test emailPattern (RegistrationRequest.email formData)
                  then Some ''Please enter a valid email address''
             else None);
          newErrors = \<lparr>RegistrationErrors.name = nameError, RegistrationErrors.email = emailError\<rparr>
      in (nameError = None \<and> emailError = None, newErrors))"

text \<open>
  \<open>handleSubmit\<close> of the form: the list of arguments with which \<open>onRegister\<close> was called,
  and the errors shown.
\<close>

definition UserRegistration_handleSubmit ::
  "RegistrationRequest \<Rightarrow> RegistrationRequest list \<times> RegistrationErrors" where
  "UserRegistration_handleSubmit formData =
     (if fst (validateForm formData) then ([formData], snd (validateForm formData))
      else ([], snd (validateForm formData)))"

section \<open>Example data\<close>

text \<open>A statement without a \<open>WHERE\<close> clause reaches every row the policy admits.\<close>

definition all_rows :: "'r \<Rightarrow> bool" where
  "all_rows r = True"

text \<open>
  Two users; a project, a document and a chunk of the first; a document of the second that
  references the project of the first.
\<close>

definition alice :: users_row where
  "alice = \<lparr>users_row.id = 1, users_row.email = ''alice@example.org'',
            users_row.name = Some ''Alice'', users_row.created_at = None,
            users_row.updated_at = None\<rparr>"

definition bob :: users_row where
  "bob = \<lparr>users_row.id = 2, users_row.email = ''bob@example.org'',
          users_row.name = Some ''Bob'', users_row.created_at = None,
          users_row.updated_at = None\<rparr>"

definition alices_project :: projects_row where
  "alices_project =
     \<lparr>owned_row.id = 10, owned_row.user_id = Some 1, projects_row.name = ''Solar farm'',
      description = None, market = Some ''Solar'', location = None, owner = None,
      status = Some ''active'', projects_row.metadata = None,
      projects_row.created_at = None, projects_row.updated_at = None\<rparr>"

definition alices_document :: documents_row where
  "alices_document =
     \<lparr>owned_row.id = 21, owned_row.user_id = Some 1, documents_row.project_id = Some 10,
      file_name = ''survey.pdf'', file_path = ''alice/survey.pdf'', file_size = None,
      file_type = None, source_type = ''upload'', source_id = None,
      processing_status = Some ''completed'', chunk_count = Some 1,
      documents_row.metadata = None, documents_row.created_at = None, processed_at = None,
      error_message = None\<rparr>"

definition bobs_document :: documents_row where
  "bobs_document =
     \<lparr>owned_row.id = 20, owned_row.user_id = Some 2, documents_row.project_id = Some 10,
      file_name = ''notes.txt'', file_path = ''bob/notes.txt'', file_size = None,
      file_type = None, source_type = ''upload'', source_id = None,
      processing_status = Some ''pending'', chunk_count = Some 0,
      documents_row.metadata = None, documents_row.created_at = None, processed_at = None,
      error_message = None\<rparr>"

definition alices_chunk :: document_chunks_row where
  "alices_chunk =
     \<lparr>owned_row.id = 30, owned_row.user_id = Some 1, document_id = Some 21,
      document_chunks_row.project_id = Some 10, chunk_index = 0,
      document_chunks_row.content = ''Irradiance survey'', embedding = None,
      token_count = Some 2, document_chunks_row.metadata = None,
      document_chunks_row.created_at = None\<rparr>"

text \<open>A chunk whose embedding has 1536 components, and one whose embedding has 384.\<close>

definition full_chunk :: document_chunks_row where
  "full_chunk = alices_chunk\<lparr>owned_row.id := 32, embedding := Some (replicate 1536 0)\<rparr>"

definition short_chunk :: document_chunks_row where
  "short_chunk = alices_chunk\<lparr>owned_row.id := 31, embedding := Some (replicate 384 0)\<rparr>"

definition database_before :: database where
  "database_before =
     \<lparr>users = [alice, bob], projects = [alices_project], documents = [alices_document],
      document_chunks = [alices_chunk], conversation_contexts = []\<rparr>"

definition database_shared :: database where
  "database_shared =
     \<lparr>users = [alice, bob], projects = [alices_project],
      documents = [alices_document, bobs_document],
      document_chunks = [alices_chunk], conversation_contexts = []\<rparr>"

text \<open>
  An embedding provider, and a vector store that ignores the filter it is given and
  returns a chunk of the corpus.
\<close>

definition zero_embedder :: "string \<Rightarrow> real list" where
  "zero_embedder q = replicate 1536 0"

definition unfiltered_store ::
  "real list \<Rightarrow> nat \<Rightarrow> (document_chunks_row \<Rightarrow> bool) \<Rightarrow> (document_chunks_row \<times> real) list" where
  "unfiltered_store v k flt = take k [(alices_chunk, 1)]"

text \<open>
  A clock and a registered user for the chat handler; the store right after registration
  and after a first conversation was opened.
\<close>

definition example_env :: "nat handler_env" where
  "example_env =
     \<lparr>now_conversation = 1000, random_suffix = ''k3x9q2m1z'', now_userMessage = 1001,
      now_userAdded = 1002, now_reply = 1500, now_replyAdded = 1501,
      number_toString = toString_nat\<rparr>"

definition example_user :: User where
  "example_user =
     \<lparr>user_id = ''u1'', User.name = ''Ada'', User.email = ''ada@example.org'', User.id = None,
      interests = None, registered_at = None, preferences = None\<rparr>"

definition example_state :: "nat AppState" where
  "example_state = setUser (Some example_user) initialState"

definition example_chat :: "nat AppState" where
  "example_chat =
     addConversation (createNewConversation example_env (Some example_user)) example_state"


definition backend_empty_answer :: "ChatRequest \<Rightarrow> nat ChatData ApiResponse http_outcome" where
  "backend_empty_answer req =
     Resolved \<lparr>success = True,
               data = Some \<lparr>ChatData.response = [], math_response = None\<rparr>,
               ApiResponse.error = None, ApiResponse.message = None\<rparr>"

definition plain_data :: "nat ChatData" where
  "plain_data = \<lparr>ChatData.response = ''Wind turbines convert kinetic energy.'',
                  math_response = None\<rparr>"

definition plain_response :: "nat ChatData ApiResponse" where
  "plain_response = \<lparr>success = True, data = Some plain_data,
                      ApiResponse.error = None, ApiResponse.message = None\<rparr>"

definition backend_answers :: "ChatRequest \<Rightarrow> nat ChatData ApiResponse http_outcome" where
  "backend_answers req = Resolved plain_response"

text \<open>A backend that answers a calculation with a text and a math response.\<close>

definition sum_data :: "nat ChatData" where
  "sum_data =
     \<lparr>ChatData.response = ''The answer is 4.'',
      math_response =
        Some \<lparr>result = Some 4, operation = ''2 + 2'', explanation = ''Addition'',
              renewable_context = ''N/A'', confidence = 1, environmental_impact = None,
              units = None\<rparr>\<rparr>"

definition backend_calculates :: "ChatRequest \<Rightarrow> nat ChatData ApiResponse http_outcome" where
  "backend_calculates req =
     Resolved \<lparr>success = True, data = Some sum_data,
               ApiResponse.error = None, ApiResponse.message = None\<rparr>"

text \<open>Two registration forms.\<close>

definition valid_form :: RegistrationRequest where
  "valid_form = \<lparr>RegistrationRequest.name = '' Ada '',
                  RegistrationRequest.email = ''ada@example.org''\<rparr>"

definition invalid_form :: RegistrationRequest where
  "invalid_form = \<lparr>RegistrationRequest.name = '' A '',
                    RegistrationRequest.email = ''ada@example''\<rparr>"


section \<open>Properties of the schema\<close>

subsection \<open>What a cascade leaves\<close>

lemma refers_to_rows:
  "refers_to fk (map f (filter P rows)) \<longleftrightarrow> (\<exists>r \<in> set rows. P r \<and> fk = Some (f r))"
  by (cases fk) (auto simp: refers_to_def)


lemma remove_document_chunks_tables [simp]:
  "users (remove_document_chunks P db) = users db"
  "projects (remove_document_chunks P db) = projects db"
  "documents (remove_document_chunks P db) = documents db"
  "document_chunks (remove_document_chunks P db) = filter (\<lambda>c. \<not> P c) (document_chunks db)"
  "conversation_contexts (remove_document_chunks P db) = conversation_contexts db"
  by (simp_all add: remove_document_chunks_def)

lemma remove_conversation_contexts_tables [simp]:
  "users (remove_conversation_contexts P db) = users db"
  "projects (remove_conversation_contexts P db) = projects db"
  "documents (remove_conversation_contexts P db) = documents db"
  "document_chunks (remove_conversation_contexts P db) = document_chunks db"
  "conversation_contexts (remove_conversation_contexts P db)
     = filter (\<lambda>x. \<not> P x) (conversation_contexts db)"
  by (simp_all add: remove_conversation_contexts_def)

lemma remove_documents_tables [simp]:
  "users (remove_documents P db) = users db"
  "projects (remove_documents P db) = projects db"
  "documents (remove_documents P db) = filter (\<lambda>d. \<not> P d) (documents db)"
  "conversation_contexts (remove_documents P db) = conversation_contexts db"
  by (simp_all add: remove_documents_def Let_def)

lemma remove_documents_chunks:
  "set (document_chunks (remove_documents P db)) =
     {c \<in> set (document_chunks db).
        \<not> (\<exists>d \<in> set (documents db). P d \<and> document_id c = Some (owned_row.id d))}"
  by (simp add: remove_documents_def Let_def refers_to_rows)

lemma remove_projects_tables [simp]:
  "users (remove_projects P db) = users db"
  "projects (remove_projects P db) = filter (\<lambda>p. \<not> P p) (projects db)"
  "conversation_contexts (remove_projects P db) = conversation_contexts db"
  by (simp_all add: remove_projects_def Let_def)

lemma remove_projects_documents:
  "set (documents (remove_projects P db)) =
     {d \<in> set (documents db).
        \<not> (\<exists>p \<in> set (projects db). P p \<and>
              documents_row.project_id d = Some (owned_row.id p))}"
  by (simp add: remove_projects_def Let_def refers_to_rows)

lemma remove_projects_chunks:
  "set (document_chunks (remove_projects P db)) =
     {c \<in> set (document_chunks db).
        \<not> (\<exists>p \<in> set (projects db). P p \<and>
              document_chunks_row.project_id c = Some (owned_row.id p)) \<and>
        \<not> (\<exists>d \<in> set (documents db).
              (\<exists>p \<in> set (projects db). P p \<and>
                 documents_row.project_id d = Some (owned_row.id p)) \<and>
              document_id c = Some (owned_row.id d))}"
  by (auto simp: remove_projects_def Let_def remove_documents_chunks refers_to_rows)

lemma remove_users_tables [simp]:
  "users (remove_users P db) = filter (\<lambda>u. \<not> P u) (users db)"
  by (simp add: remove_users_def Let_def)



lemma remove_users_documents:
  "set (documents (remove_users P db)) =
     {d \<in> set (documents db).
        \<not> (\<exists>u \<in> set (users db). P u \<and> owned_row.user_id d = Some (users_row.id u)) \<and>
        \<not> (\<exists>p \<in> set (projects db).
              (\<exists>u \<in> set (users db). P u \<and> owned_row.user_id p = Some (users_row.id u)) \<and>
              documents_row.project_id d = Some (owned_row.id p))}"
  by (auto simp: remove_users_def Let_def remove_projects_documents refers_to_rows)

lemma remove_users_chunks:
  "set (document_chunks (remove_users P db)) =
     {c \<in> set (document_chunks db).
        \<not> (\<exists>u \<in> set (users db). P u \<and> owned_row.user_id c = Some (users_row.id u)) \<and>
        \<not> (\<exists>p \<in> set (projects db).
              (\<exists>u \<in> set (users db). P u \<and> owned_row.user_id p = Some (users_row.id u)) \<and>
              document_chunks_row.project_id c = Some (owned_row.id p)) \<and>
        \<not> (\<exists>d \<in> set (documents db).
              d \<notin> set (documents (remove_users P db)) \<and>
              document_id c = Some (owned_row.id d))}"
  unfolding remove_users_documents
  apply (simp add: remove_users_def Let_def remove_projects_chunks remove_documents_chunks
      remove_projects_documents refers_to_rows)
  apply (rule set_eqI)
  apply (simp)
  apply blast
  done








lemmas example_rows =
  alice_def bob_def alices_project_def alices_document_def bobs_document_def alices_chunk_def
  database_before_def database_shared_def all_rows_def



subsection \<open>Row-level security\<close>

lemma policy_owner:
  "projects_policy (Some u) rp \<longleftrightarrow> owned_row.user_id rp = Some u"
  "documents_policy (Some u) rd \<longleftrightarrow> owned_row.user_id rd = Some u"
  "document_chunks_policy (Some u) rc \<longleftrightarrow> owned_row.user_id rc = Some u"
  "conversation_contexts_policy (Some u) rx \<longleftrightarrow> owned_row.user_id rx = Some u"
  by (auto simp: projects_policy_def documents_policy_def document_chunks_policy_def
      conversation_contexts_policy_def sql_true_def sql_eq_def split: option.splits)

lemma rls_update_policy:
  assumes "rls_update policy wh f rows = Inr rows'"
  shows "length rows' = length rows \<and>
         (\<forall>i < length rows. rows' ! i \<noteq> rows ! i \<longrightarrow> policy (rows ! i) \<and> policy (rows' ! i))"
proof -
  from assms have all: "list_all (\<lambda>r. policy r \<and> wh r \<longrightarrow> policy (f r)) rows"
    and rows': "rows' = map (\<lambda>r. if policy r \<and> wh r then f r else r) rows"
    by (auto simp: rls_update_def split: if_splits)
  show ?thesis
    using all unfolding rows' by (auto simp: list_all_iff)
qed

lemma checked_Inr: "checked db = Inr db' \<Longrightarrow> db' = db"
  by (auto simp: checked_def split: if_splits)

lemma update_projects_rows:
  "update_projects a now wh f db = Inr db' \<Longrightarrow>
   rls_update (projects_policy a) wh (\<lambda>r. update_updated_at_column now (f r)) (projects db)
     = Inr (projects db')"
  by (auto simp: update_projects_def split: sum.splits dest!: checked_Inr)

lemma update_documents_rows:
  "update_documents a wh f db = Inr db' \<Longrightarrow>
   rls_update (documents_policy a) wh f (documents db) = Inr (documents db')"
  by (auto simp: update_documents_def split: sum.splits dest!: checked_Inr)

lemma update_document_chunks_rows:
  "update_document_chunks a wh f db = Inr db' \<Longrightarrow>
   rls_update (document_chunks_policy a) wh f (document_chunks db) = Inr (document_chunks db')"
  by (auto simp: update_document_chunks_def split: sum.splits list.splits dest!: checked_Inr)

lemma update_conversation_contexts_rows:
  "update_conversation_contexts a wh f db = Inr db' \<Longrightarrow>
   rls_update (conversation_contexts_policy a) wh f (conversation_contexts db)
     = Inr (conversation_contexts db')"
  by (auto simp: update_conversation_contexts_def split: sum.splits dest!: checked_Inr)

text \<open>
  Claim C1, as amended. For each of the tables \<open>projects\<close>, \<open>documents\<close>,
  \<open>document_chunks\<close> and \<open>conversation_contexts\<close> and every statement issued for an
  authenticated user \<open>u\<close>: a \<open>SELECT\<close> returns only rows whose \<open>user_id\<close> is \<open>u\<close>; an
  \<open>INSERT\<close> succeeds only for a row whose \<open>user_id\<close> is \<open>u\<close>; an \<open>UPDATE\<close> changes only rows
  whose \<open>user_id\<close> is \<open>u\<close> before and after; a \<open>DELETE\<close> removes from the table it names only
  rows whose \<open>user_id\<close> is \<open>u\<close>; and the rows that two distinct users can select from a
  table are disjoint. The rows of other tables that \<open>ON DELETE CASCADE\<close> removes are not
  part of the statement.
\<close>

theorem rls_owner_only:
  "(\<forall>r \<in> set (select_projects (Some u) whp db). owned_row.user_id r = Some u) \<and>
   (\<forall>r \<in> set (select_documents (Some u) whd db). owned_row.user_id r = Some u) \<and>
   (\<forall>r \<in> set (select_document_chunks (Some u) whc db). owned_row.user_id r = Some u) \<and>
   (\<forall>r \<in> set (select_conversation_contexts (Some u) whx db). owned_row.user_id r = Some u) \<and>
   (\<forall>db'. insert_project (Some u) rp db = Inr db' \<longrightarrow> owned_row.user_id rp = Some u) \<and>
   (\<forall>db'. insert_document (Some u) rd db = Inr db' \<longrightarrow> owned_row.user_id rd = Some u) \<and>
   (\<forall>db'. insert_document_chunk (Some u) rc db = Inr db' \<longrightarrow> owned_row.user_id rc = Some u) \<and>
   (\<forall>db'. insert_conversation_context (Some u) rx db = Inr db'
      \<longrightarrow> owned_row.user_id rx = Some u) \<and>
   (\<forall>db'. update_projects (Some u) now whp fp db = Inr db' \<longrightarrow>
      length (projects db') = length (projects db) \<and>
      (\<forall>i < length (projects db). projects db' ! i \<noteq> projects db ! i \<longrightarrow>
         owned_row.user_id (projects db ! i) = Some u \<and>
         owned_row.user_id (projects db' ! i) = Some u)) \<and>
   (\<forall>db'. update_documents (Some u) whd fd db = Inr db' \<longrightarrow>
      length (documents db') = length (documents db) \<and>
      (\<forall>i < length (documents db). documents db' ! i \<noteq> documents db ! i \<longrightarrow>
         owned_row.user_id (documents db ! i) = Some u \<and>
         owned_row.user_id (documents db' ! i) = Some u)) \<and>
   (\<forall>db'. update_document_chunks (Some u) whc fc db = Inr db' \<longrightarrow>
      length (document_chunks db') = length (document_chunks db) \<and>
      (\<forall>i < length (document_chunks db). document_chunks db' ! i \<noteq> document_chunks db ! i \<longrightarrow>
         owned_row.user_id (document_chunks db ! i) = Some u \<and>
         owned_row.user_id (document_chunks db' ! i) = Some u)) \<and>
   (\<forall>db'. update_conversation_contexts (Some u) whx fx db = Inr db' \<longrightarrow>
      length (conversation_contexts db') = length (conversation_contexts db) \<and>
      (\<forall>i < length (conversation_contexts db).
         conversation_contexts db' ! i \<noteq> conversation_contexts db ! i \<longrightarrow>
         owned_row.user_id (conversation_contexts db ! i) = Some u \<and>
         owned_row.user_id (conversation_contexts db' ! i) = Some u)) \<and>
   (\<forall>r \<in> set (projects db). r \<notin> set (projects (delete_projects (Some u) whp db))
      \<longrightarrow> owned_row.user_id r = Some u) \<and>
   (\<forall>r \<in> set (documents db). r \<notin> set (documents (delete_documents (Some u) whd db))
      \<longrightarrow> owned_row.user_id r = Some u) \<and>
   (\<forall>r \<in> set (document_chunks db).
      r \<notin> set (document_chunks (delete_document_chunks (Some u) whc db))
      \<longrightarrow> owned_row.user_id r = Some u) \<and>
   (\<forall>r \<in> set (conversation_contexts db).
      r \<notin> set (conversation_contexts (delete_conversation_contexts (Some u) whx db))
      \<longrightarrow> owned_row.user_id r = Some u) \<and>
   (u \<noteq> v \<longrightarrow>
      set (select_projects (Some u) whp db) \<inter> set (select_projects (Some v) whp' db) = {} \<and>
      set (select_documents (Some u) whd db) \<inter> set (select_documents (Some v) whd' db) = {} \<and>
      set (select_document_chunks (Some u) whc db)
        \<inter> set (select_document_chunks (Some v) whc' db) = {} \<and>
      set (select_conversation_contexts (Some u) whx db)
        \<inter> set (select_conversation_contexts (Some v) whx' db) = {})"
proof -
  have sel: "\<forall>r \<in> set (select_projects (Some u) whp db). owned_row.user_id r = Some u"
    "\<forall>r \<in> set (select_documents (Some u) whd db). owned_row.user_id r = Some u"
    "\<forall>r \<in> set (select_document_chunks (Some u) whc db). owned_row.user_id r = Some u"
    "\<forall>r \<in> set (select_conversation_contexts (Some u) whx db). owned_row.user_id r = Some u"
    by (simp_all add: select_projects_def select_documents_def select_document_chunks_def
        select_conversation_contexts_def rls_select_def policy_owner)
  have ins: "\<forall>db'. insert_project (Some u) rp db = Inr db' \<longrightarrow> owned_row.user_id rp = Some u"
    "\<forall>db'. insert_document (Some u) rd db = Inr db' \<longrightarrow> owned_row.user_id rd = Some u"
    "\<forall>db'. insert_document_chunk (Some u) rc db = Inr db' \<longrightarrow> owned_row.user_id rc = Some u"
    "\<forall>db'. insert_conversation_context (Some u) rx db = Inr db'
      \<longrightarrow> owned_row.user_id rx = Some u"
    by (auto simp: insert_project_def insert_document_def insert_document_chunk_def
        insert_conversation_context_def policy_owner split: if_splits option.splits)
  have upd_p: "\<forall>db'. update_projects (Some u) now whp fp db = Inr db' \<longrightarrow>
      length (projects db') = length (projects db) \<and>
      (\<forall>i < length (projects db). projects db' ! i \<noteq> projects db ! i \<longrightarrow>
         owned_row.user_id (projects db ! i) = Some u \<and>
         owned_row.user_id (projects db' ! i) = Some u)"
    using rls_update_policy [OF update_projects_rows, of "Some u" now whp fp db]
    by (simp add: policy_owner)
  have upd_d: "\<forall>db'. update_documents (Some u) whd fd db = Inr db' \<longrightarrow>
      length (documents db') = length (documents db) \<and>
      (\<forall>i < length (documents db). documents db' ! i \<noteq> documents db ! i \<longrightarrow>
         owned_row.user_id (documents db ! i) = Some u \<and>
         owned_row.user_id (documents db' ! i) = Some u)"
    using rls_update_policy [OF update_documents_rows, of "Some u" whd fd db]
    by (simp add: policy_owner)
  have upd_c: "\<forall>db'. update_document_chunks (Some u) whc fc db = Inr db' \<longrightarrow>
      length (document_chunks db') = length (document_chunks db) \<and>
      (\<forall>i < length (document_chunks db). document_chunks db' ! i \<noteq> document_chunks db ! i \<longrightarrow>
         owned_row.user_id (document_chunks db ! i) = Some u \<and>
         owned_row.user_id (document_chunks db' ! i) = Some u)"
    using rls_update_policy [OF update_document_chunks_rows, of "Some u" whc fc db]
    by (simp add: policy_owner)
  have upd_x: "\<forall>db'. update_conversation_contexts (Some u) whx fx db = Inr db' \<longrightarrow>
      length (conversation_contexts db') = length (conversation_contexts db) \<and>
      (\<forall>i < length (conversation_contexts db).
         conversation_contexts db' ! i \<noteq> conversation_contexts db ! i \<longrightarrow>
         owned_row.user_id (conversation_contexts db ! i) = Some u \<and>
         owned_row.user_id (conversation_contexts db' ! i) = Some u)"
    using rls_update_policy [OF update_conversation_contexts_rows, of "Some u" whx fx db]
    by (simp add: policy_owner)
  have del: "\<forall>r \<in> set (projects db). r \<notin> set (projects (delete_projects (Some u) whp db))
      \<longrightarrow> owned_row.user_id r = Some u"
    "\<forall>r \<in> set (documents db). r \<notin> set (documents (delete_documents (Some u) whd db))
      \<longrightarrow> owned_row.user_id r = Some u"
    "\<forall>r \<in> set (document_chunks db).
      r \<notin> set (document_chunks (delete_document_chunks (Some u) whc db))
      \<longrightarrow> owned_row.user_id r = Some u"
    "\<forall>r \<in> set (conversation_contexts db).
      r \<notin> set (conversation_contexts (delete_conversation_contexts (Some u) whx db))
      \<longrightarrow> owned_row.user_id r = Some u"
    by (simp_all add: delete_projects_def delete_documents_def delete_document_chunks_def
        delete_conversation_contexts_def policy_owner)
  have dis: "u \<noteq> v \<longrightarrow>
      set (select_projects (Some u) whp db) \<inter> set (select_projects (Some v) whp' db) = {} \<and>
      set (select_documents (Some u) whd db) \<inter> set (select_documents (Some v) whd' db) = {} \<and>
      set (select_document_chunks (Some u) whc db)
        \<inter> set (select_document_chunks (Some v) whc' db) = {} \<and>
      set (select_conversation_contexts (Some u) whx db)
        \<inter> set (select_conversation_contexts (Some v) whx' db) = {}"
    by (auto simp: select_projects_def select_documents_def select_document_chunks_def
        select_conversation_contexts_def rls_select_def policy_owner)
  from sel ins upd_p upd_d upd_c upd_x del dis show ?thesis by (intro conjI)
qed

text \<open>
  On the example database each of the two users selects exactly the document that is
  theirs.
\<close>

theorem rls_owner_only_witness:
  "(1::nat) \<noteq> 2 \<and>
   select_documents (Some 1) all_rows database_shared = [alices_document] \<and>
   select_documents (Some 2) all_rows database_shared = [bobs_document] \<and>
   set (select_documents (Some 1) all_rows database_shared)
     \<inter> set (select_documents (Some 2) all_rows database_shared) = {}"
  using rls_owner_only [where u = 1 and v = 2 and db = database_shared
      and whd = all_rows and whd' = all_rows]
  by (simp add: example_rows select_documents_def rls_select_def documents_policy_def
      sql_true_def sql_eq_def)

text \<open>
  Claim C1 as stated fails on a cascade. The second user inserts a document of his own that
  references the project of the first: the policy admits the row, and the foreign key is
  checked by the system. He can select that row. When the first user deletes her project,
  the cascade removes it, although its \<open>user_id\<close> is not hers.
\<close>

theorem rls_owner_only_counterexample:
  "insert_document (Some 2) bobs_document database_before = Inr database_shared \<and>
   select_documents (Some 2) all_rows database_shared = [bobs_document] \<and>
   owned_row.user_id bobs_document = Some 2 \<and>
   documents (delete_projects (Some 1) all_rows database_shared) = []"
  by (simp add: example_rows insert_document_def documents_policy_def projects_policy_def
      sql_true_def sql_eq_def checked_def primary_keys_ok_def foreign_keys_ok_def fk_ok_def
      user_ids_def project_ids_def document_ids_def select_documents_def rls_select_def
      delete_projects_def remove_projects_def remove_documents_def remove_document_chunks_def
      refers_to_def Let_def)

subsection \<open>The dimension of an embedding\<close>

lemma vector_check_None:
  "vector_check n v = None \<longleftrightarrow> (\<forall>xs. v = Some xs \<longrightarrow> length xs = n)"
  by (simp add: vector_check_def split: option.splits)

lemma vector_check_Some:
  "v = Some xs \<Longrightarrow> length xs \<noteq> n \<Longrightarrow>
   vector_check n v = Some (DimensionMismatch n (length xs))"
  by (simp add: vector_check_def)

lemma insert_document_chunk_Inr:
  assumes "insert_document_chunk a r db = Inr db'"
  shows "document_chunks db' = document_chunks db @ [r] \<and>
         (\<forall>xs. embedding r = Some xs \<longrightarrow> length xs = embedding_dimension)"
proof -
  from assms have v: "vector_check embedding_dimension (embedding r) = None"
    and c: "checked (db\<lparr>document_chunks := document_chunks db @ [r]\<rparr>) = Inr db'"
    by (auto simp: insert_document_chunk_def split: option.splits if_splits)
  from checked_Inr [OF c] v show ?thesis by (simp add: vector_check_None)
qed

lemma map_filter_Nil: "List.map_filter g xs = [] \<longleftrightarrow> (\<forall>x \<in> set xs. g x = None)"
  by (auto simp: List.map_filter_def filter_empty_conv)

lemma update_document_chunks_Inr:
  assumes "update_document_chunks a wh f db = Inr db'"
  shows "document_chunks db' =
           map (\<lambda>r. if document_chunks_policy a r \<and> wh r then f r else r) (document_chunks db) \<and>
         (\<forall>r \<in> set (document_chunks db). document_chunks_policy a r \<and> wh r \<longrightarrow>
            (\<forall>xs. embedding (f r) = Some xs \<longrightarrow> length xs = embedding_dimension))"
proof -
  from assms have nil: "List.map_filter
             (\<lambda>r. if document_chunks_policy a r \<and> wh r
                  then vector_check embedding_dimension (embedding (f r)) else None)
             (document_chunks db) = []"
    by (auto simp: update_document_chunks_def split: list.splits)
  from update_document_chunks_rows [OF assms]
  have "document_chunks db' =
           map (\<lambda>r. if document_chunks_policy a r \<and> wh r then f r else r) (document_chunks db)"
    by (auto simp: rls_update_def split: if_splits)
  moreover have "\<forall>r \<in> set (document_chunks db). document_chunks_policy a r \<and> wh r \<longrightarrow>
            (\<forall>xs. embedding (f r) = Some xs \<longrightarrow> length xs = embedding_dimension)"
    using nil unfolding map_filter_Nil by (auto simp: vector_check_None split: if_splits)
  ultimately show ?thesis by blast
qed

lemma other_statements_chunks:
  "insert_project a rp db = Inr db' \<Longrightarrow> document_chunks db' = document_chunks db"
  "insert_document a rd db = Inr db' \<Longrightarrow> document_chunks db' = document_chunks db"
  "insert_conversation_context a rx db = Inr db' \<Longrightarrow> document_chunks db' = document_chunks db"
  "update_projects a now whp fp db = Inr db' \<Longrightarrow> document_chunks db' = document_chunks db"
  "update_documents a whd fd db = Inr db' \<Longrightarrow> document_chunks db' = document_chunks db"
  "update_conversation_contexts a whx fx db = Inr db'
     \<Longrightarrow> document_chunks db' = document_chunks db"
  by (auto simp: insert_project_def insert_document_def insert_conversation_context_def
      update_projects_def update_documents_def update_conversation_contexts_def
      split: if_splits sum.splits dest!: checked_Inr)

lemma delete_statements_chunks:
  "set (document_chunks (delete_projects a whp db)) \<subseteq> set (document_chunks db)"
  "set (document_chunks (delete_documents a whd db)) \<subseteq> set (document_chunks db)"
  "set (document_chunks (delete_document_chunks a whc db)) \<subseteq> set (document_chunks db)"
  "set (document_chunks (delete_conversation_contexts a whx db)) \<subseteq> set (document_chunks db)"
  "set (document_chunks (remove_users Pu db)) \<subseteq> set (document_chunks db)"
  unfolding delete_projects_def delete_documents_def delete_document_chunks_def
    delete_conversation_contexts_def remove_projects_chunks remove_documents_chunks
    remove_users_chunks
  by auto

lemma full_chunk_fields:
  "embedding full_chunk = Some (replicate 1536 0)"
  "owned_row.id full_chunk = 32"
  "owned_row.user_id full_chunk = Some 1"
  "document_id full_chunk = Some 21"
  "document_chunks_row.project_id full_chunk = Some 10"
  by (simp_all add: full_chunk_def alices_chunk_def)

lemma short_chunk_fields:
  "embedding short_chunk = Some (replicate 384 0)"
  by (simp_all add: short_chunk_def)

lemma database_before_ok:
  "primary_keys_ok (database_before\<lparr>document_chunks := [alices_chunk, full_chunk]\<rparr>)"
  "foreign_keys_ok (database_before\<lparr>document_chunks := [alices_chunk, full_chunk]\<rparr>)"
  by (simp_all add: primary_keys_ok_def foreign_keys_ok_def fk_ok_def user_ids_def
      project_ids_def document_ids_def full_chunk_fields database_before_def alice_def bob_def
      alices_project_def alices_document_def alices_chunk_def)

lemma insert_full_chunk:
  "insert_document_chunk (Some 1) full_chunk database_before
      = Inr (database_before\<lparr>document_chunks := [alices_chunk, full_chunk]\<rparr>)"
proof -
  have d: "document_chunks database_before @ [full_chunk] = [alices_chunk, full_chunk]"
    by (simp add: database_before_def)
  have v: "vector_check embedding_dimension (embedding full_chunk) = None"
    by (simp add: full_chunk_fields vector_check_def embedding_dimension_def)
  have p: "document_chunks_policy (Some 1) full_chunk"
    by (simp add: document_chunks_policy_def sql_true_def sql_eq_def full_chunk_fields)
  have c: "checked (database_before\<lparr>document_chunks := [alices_chunk, full_chunk]\<rparr>)
      = Inr (database_before\<lparr>document_chunks := [alices_chunk, full_chunk]\<rparr>)"
    by (simp only: checked_def database_before_ok not_True_eq_False if_False)
  show ?thesis
    unfolding insert_document_chunk_def v d
    using p c by (simp only: option.case not_True_eq_False if_False)
qed

text \<open>
  Claim C6. The column \<open>embedding\<close> has the dimension 1536, which is the
  \<open>EMBEDDING_DIMENSION\<close> that the template of the RAG system configures for its embedding
  model. A chunk whose embedding has another dimension cannot be stored: its insert fails
  with a dimension error, a successful insert stores a row whose embedding, if it has one,
  has 1536 components, and a successful update leaves each row as it was or with such an
  embedding. Hence, when every embedding in the table has 1536 components, every chunk
  that a query selects has, and the same holds of the table after every statement:
  an insert, an update or a delete on any table, with its cascade.
\<close>

theorem embedding_dimension_fixed:
  "embedding_dimension = 1536 \<and>
   getenv rag_system_env ''EMBEDDING_MODEL'' = Some ''text-embedding-3-small'' \<and>
   getenv rag_system_env ''EMBEDDING_DIMENSION'' = Some (toString_nat embedding_dimension) \<and>
   (\<forall>xs. embedding rc = Some xs \<longrightarrow> length xs \<noteq> embedding_dimension \<longrightarrow>
      insert_document_chunk a rc db
        = Inl (DimensionMismatch embedding_dimension (length xs))) \<and>
   (\<forall>db'. insert_document_chunk a rc db = Inr db' \<longrightarrow>
      document_chunks db' = document_chunks db @ [rc] \<and>
      (\<forall>xs. embedding rc = Some xs \<longrightarrow> length xs = embedding_dimension)) \<and>
   (\<forall>db'. update_document_chunks a whc fc db = Inr db' \<longrightarrow>
      length (document_chunks db') = length (document_chunks db) \<and>
      (\<forall>i < length (document_chunks db).
         document_chunks db' ! i = document_chunks db ! i \<or>
         (\<forall>xs. embedding (document_chunks db' ! i) = Some xs
            \<longrightarrow> length xs = embedding_dimension))) \<and>
   ((\<forall>c \<in> set (document_chunks db).
       \<forall>xs. embedding c = Some xs \<longrightarrow> length xs = embedding_dimension) \<longrightarrow>
    (\<forall>c \<in> set (select_document_chunks a whc db).
       \<forall>xs. embedding c = Some xs \<longrightarrow> length xs = embedding_dimension) \<and>
    (\<forall>db'. insert_project a rp db = Inr db' \<or> insert_document a rd db = Inr db' \<or>
           insert_document_chunk a rc db = Inr db' \<or>
           insert_conversation_context a rx db = Inr db' \<or>
           update_projects a now whp fp db = Inr db' \<or>
           update_documents a whd fd db = Inr db' \<or>
           update_document_chunks a whc fc db = Inr db' \<or>
           update_conversation_contexts a whx fx db = Inr db' \<or>
           db' = delete_projects a whp db \<or> db' = delete_documents a whd db \<or>
           db' = delete_document_chunks a whc db \<or>
           db' = delete_conversation_contexts a whx db \<or>
           db' = remove_users Pu db \<longrightarrow>
       (\<forall>c \<in> set (document_chunks db').
          \<forall>xs. embedding c = Some xs \<longrightarrow> length xs = embedding_dimension)))"
proof -
  have 1: "embedding_dimension = 1536" by (simp add: embedding_dimension_def)
  have 2: "getenv rag_system_env ''EMBEDDING_MODEL'' = Some ''text-embedding-3-small''"
    by (simp add: getenv_def rag_system_env_def)
  have "toString_nat 1536 = ''1536''" by code_simp
  then have 3: "getenv rag_system_env ''EMBEDDING_DIMENSION''
      = Some (toString_nat embedding_dimension)"
    by (simp add: getenv_def rag_system_env_def embedding_dimension_def)
  have 4: "\<forall>xs. embedding rc = Some xs \<longrightarrow> length xs \<noteq> embedding_dimension \<longrightarrow>
      insert_document_chunk a rc db
        = Inl (DimensionMismatch embedding_dimension (length xs))"
    by (simp add: insert_document_chunk_def vector_check_def)
  have 5: "\<forall>db'. insert_document_chunk a rc db = Inr db' \<longrightarrow>
      document_chunks db' = document_chunks db @ [rc] \<and>
      (\<forall>xs. embedding rc = Some xs \<longrightarrow> length xs = embedding_dimension)"
    using insert_document_chunk_Inr [of a rc db] by blast
  have 6: "\<forall>db'. update_document_chunks a whc fc db = Inr db' \<longrightarrow>
      length (document_chunks db') = length (document_chunks db) \<and>
      (\<forall>i < length (document_chunks db).
         document_chunks db' ! i = document_chunks db ! i \<or>
         (\<forall>xs. embedding (document_chunks db' ! i) = Some xs
            \<longrightarrow> length xs = embedding_dimension))"
  proof (intro allI impI)
    fix db' assume u: "update_document_chunks a whc fc db = Inr db'"
    from update_document_chunks_Inr [OF u]
    show "length (document_chunks db') = length (document_chunks db) \<and>
      (\<forall>i < length (document_chunks db).
         document_chunks db' ! i = document_chunks db ! i \<or>
         (\<forall>xs. embedding (document_chunks db' ! i) = Some xs
            \<longrightarrow> length xs = embedding_dimension))"
      by auto
  qed
  have 7: "(\<forall>c \<in> set (select_document_chunks a whc db).
       \<forall>xs. embedding c = Some xs \<longrightarrow> length xs = embedding_dimension) \<and>
    (\<forall>db'. insert_project a rp db = Inr db' \<or> insert_document a rd db = Inr db' \<or>
           insert_document_chunk a rc db = Inr db' \<or>
           insert_conversation_context a rx db = Inr db' \<or>
           update_projects a now whp fp db = Inr db' \<or>
           update_documents a whd fd db = Inr db' \<or>
           update_document_chunks a whc fc db = Inr db' \<or>
           update_conversation_contexts a whx fx db = Inr db' \<or>
           db' = delete_projects a whp db \<or> db' = delete_documents a whd db \<or>
           db' = delete_document_chunks a whc db \<or>
           db' = delete_conversation_contexts a whx db \<or>
           db' = remove_users Pu db \<longrightarrow>
       (\<forall>c \<in> set (document_chunks db').
          \<forall>xs. embedding c = Some xs \<longrightarrow> length xs = embedding_dimension))"
    if inv: "\<forall>c \<in> set (document_chunks db).
       \<forall>xs. embedding c = Some xs \<longrightarrow> length xs = embedding_dimension"
  proof (intro conjI allI impI)
    show "\<forall>c \<in> set (select_document_chunks a whc db).
       \<forall>xs. embedding c = Some xs \<longrightarrow> length xs = embedding_dimension"
      using inv by (auto simp: select_document_chunks_def rls_select_def)
  next
    fix db'
    assume st: "insert_project a rp db = Inr db' \<or> insert_document a rd db = Inr db' \<or>
           insert_document_chunk a rc db = Inr db' \<or>
           insert_conversation_context a rx db = Inr db' \<or>
           update_projects a now whp fp db = Inr db' \<or>
           update_documents a whd fd db = Inr db' \<or>
           update_document_chunks a whc fc db = Inr db' \<or>
           update_conversation_contexts a whx fx db = Inr db' \<or>
           db' = delete_projects a whp db \<or> db' = delete_documents a whd db \<or>
           db' = delete_document_chunks a whc db \<or>
           db' = delete_conversation_contexts a whx db \<or>
           db' = remove_users Pu db"
    let ?ok = "\<forall>c \<in> set (document_chunks db').
          \<forall>xs. embedding c = Some xs \<longrightarrow> length xs = embedding_dimension"
    have same: "document_chunks db' = document_chunks db \<Longrightarrow> ?ok"
      using inv by simp
    have sub: "set (document_chunks db') \<subseteq> set (document_chunks db) \<Longrightarrow> ?ok"
      using inv by blast
    have ins: "insert_document_chunk a rc db = Inr db' \<Longrightarrow> ?ok"
      using inv by (auto dest!: insert_document_chunk_Inr)
    have upd: "update_document_chunks a whc fc db = Inr db' \<Longrightarrow> ?ok"
      using inv by (auto dest!: update_document_chunks_Inr split: if_splits)
    from st show ?ok
    proof (elim disjE)
      assume "insert_project a rp db = Inr db'"
      then show ?ok by (intro same other_statements_chunks(1))
    next
      assume "insert_document a rd db = Inr db'"
      then show ?ok by (intro same other_statements_chunks(2))
    next
      assume "insert_document_chunk a rc db = Inr db'"
      then show ?ok by (rule ins)
    next
      assume "insert_conversation_context a rx db = Inr db'"
      then show ?ok by (intro same other_statements_chunks(3))
    next
      assume "update_projects a now whp fp db = Inr db'"
      then show ?ok by (intro same other_statements_chunks(4))
    next
      assume "update_documents a whd fd db = Inr db'"
      then show ?ok by (intro same other_statements_chunks(5))
    next
      assume "update_document_chunks a whc fc db = Inr db'"
      then show ?ok by (rule upd)
    next
      assume "update_conversation_contexts a whx fx db = Inr db'"
      then show ?ok by (intro same other_statements_chunks(6))
    next
      assume "db' = delete_projects a whp db"
      then show ?ok using sub delete_statements_chunks(1) by blast
    next
      assume "db' = delete_documents a whd db"
      then show ?ok using sub delete_statements_chunks(2) by blast
    next
      assume "db' = delete_document_chunks a whc db"
      then show ?ok using sub delete_statements_chunks(3) by blast
    next
      assume "db' = delete_conversation_contexts a whx db"
      then show ?ok using sub delete_statements_chunks(4) by blast
    next
      assume "db' = remove_users Pu db"
      then show ?ok using sub delete_statements_chunks(5) by blast
    qed
  qed
  have 8: "(\<forall>c \<in> set (document_chunks db).
       \<forall>xs. embedding c = Some xs \<longrightarrow> length xs = embedding_dimension) \<longrightarrow>
    (\<forall>c \<in> set (select_document_chunks a whc db).
       \<forall>xs. embedding c = Some xs \<longrightarrow> length xs = embedding_dimension) \<and>
    (\<forall>db'. insert_project a rp db = Inr db' \<or> insert_document a rd db = Inr db' \<or>
           insert_document_chunk a rc db = Inr db' \<or>
           insert_conversation_context a rx db = Inr db' \<or>
           update_projects a now whp fp db = Inr db' \<or>
           update_documents a whd fd db = Inr db' \<or>
           update_document_chunks a whc fc db = Inr db' \<or>
           update_conversation_contexts a whx fx db = Inr db' \<or>
           db' = delete_projects a whp db \<or> db' = delete_documents a whd db \<or>
           db' = delete_document_chunks a whc db \<or>
           db' = delete_conversation_contexts a whx db \<or>
           db' = remove_users Pu db \<longrightarrow>
       (\<forall>c \<in> set (document_chunks db').
          \<forall>xs. embedding c = Some xs \<longrightarrow> length xs = embedding_dimension))"
    by (rule impI) (rule 7)
  show ?thesis by (intro conjI 1 2 3 4 5 6 8)
qed

text \<open>
  A chunk with 1536 components is stored; the insert of a chunk with 384 components fails.
\<close>

theorem embedding_dimension_fixed_witness:
  "insert_document_chunk (Some 1) full_chunk database_before
     = Inr (database_before\<lparr>document_chunks := [alices_chunk, full_chunk]\<rparr>) \<and>
   map_option length (embedding full_chunk) = Some 1536 \<and>
   embedding short_chunk = Some (replicate 384 0) \<and>
   insert_document_chunk (Some 1) short_chunk database_before
     = Inl (DimensionMismatch 1536 384)"
proof -
  note rejected = embedding_dimension_fixed
    [where rc = short_chunk and a = "Some 1" and db = database_before,
     THEN conjunct2, THEN conjunct2, THEN conjunct2, THEN conjunct1, rule_format]
  note stored = embedding_dimension_fixed
    [where rc = full_chunk and a = "Some 1" and db = database_before,
     THEN conjunct2, THEN conjunct2, THEN conjunct2, THEN conjunct2, THEN conjunct1,
     rule_format, OF insert_full_chunk]
  have n: "embedding_dimension = 1536" by (simp add: embedding_dimension_def)
  have short: "length (replicate 384 (0::real)) \<noteq> embedding_dimension"
    by (simp add: n)
  have "insert_document_chunk (Some 1) short_chunk database_before
     = Inl (DimensionMismatch embedding_dimension (length (replicate 384 (0::real))))"
    using short_chunk_fields short by (rule rejected)
  then have 1: "insert_document_chunk (Some 1) short_chunk database_before
     = Inl (DimensionMismatch 1536 384)"
    by (simp only: n length_replicate)
  have "\<forall>xs. embedding full_chunk = Some xs \<longrightarrow> length xs = 1536"
    using stored by (simp only: n) blast
  then have "length (replicate 1536 (0::real)) = 1536"
    using full_chunk_fields(1) by blast
  then have 2: "map_option length (embedding full_chunk) = Some 1536"
    by (simp only: full_chunk_fields(1) option.map)
  from insert_full_chunk 2 short_chunk_fields 1 show ?thesis by (intro conjI)
qed


section \<open>Properties of the Retriever\<close>

text \<open>
  Claim C7. For every query string, every \<open>k\<close> and every similarity threshold,
  \<open>retrieve\<close> with an empty project scope returns the empty sequence, whatever the
  embedding provider and the vector store are and hold: it never falls back to a search
  of the whole corpus.
\<close>

theorem retrieve_empty_scope:
  "retrieve embedder store_query q {} k similarity_threshold = Inr []"
  by (simp add: retrieve_def)

text \<open>
  With a store that would answer with a chunk of the corpus whatever the filter, the empty
  scope returns nothing, for a positive \<open>k\<close> and for \<open>k = 0\<close>.
\<close>

theorem retrieve_empty_scope_witness:
  "unfiltered_store (zero_embedder ''solar'') 5 all_rows \<noteq> [] \<and>
   retrieve zero_embedder unfiltered_store ''solar'' {} 5 0 = Inr [] \<and>
   retrieve zero_embedder unfiltered_store ''solar'' {} 0 0 = Inr []"
  using retrieve_empty_scope [of zero_embedder unfiltered_store "''solar''" 5 0]
    retrieve_empty_scope [of zero_embedder unfiltered_store "''solar''" 0 0]
  by (simp add: unfiltered_store_def)


section \<open>Properties of the store\<close>

lemma addMessage_current:
  "currentConversation st = Some c \<Longrightarrow>
   currentConversation (addMessage now m st) =
     Some (c\<lparr>messages := messages c @ [m], updatedAt := now\<rparr>)"
  by (simp add: addMessage_def Let_def)

lemma addMessage_other:
  "user (addMessage now m st) = user st \<and> isLoading (addMessage now m st) = isLoading st \<and>
   AppState.error (addMessage now m st) = AppState.error st"
  by (simp add: addMessage_def Let_def split: option.splits)

lemma addMessage_conversations:
  "currentConversation st = Some c \<Longrightarrow>
   conversations (addMessage now m st) =
     map (\<lambda>conv. if Conversation.id conv = Conversation.id c
                then c\<lparr>messages := messages c @ [m], updatedAt := now\<rparr> else conv)
         (conversations st)"
  by (simp add: addMessage_def Let_def)

text \<open>
  Claim C8. \<open>addMessage\<close> without a current conversation leaves the state as it is. With
  a current conversation \<open>c\<close>, the new current conversation has the messages of \<open>c\<close> followed
  by the new message, and the id, user and creation time of \<open>c\<close>; the list of conversations
  keeps its length, every entry with the id of \<open>c\<close> becomes the new current conversation and
  every other entry is unchanged; \<open>user\<close>, \<open>isLoading\<close> and \<open>error\<close> are unchanged.
\<close>

theorem addMessage_frame:
  "(currentConversation st = None \<longrightarrow> addMessage now m st = st) \<and>
   (\<forall>c. currentConversation st = Some c \<longrightarrow>
      (\<exists>c'. currentConversation (addMessage now m st) = Some c' \<and>
            messages c' = messages c @ [m] \<and>
            Conversation.id c' = Conversation.id c \<and>
            Conversation.userId c' = Conversation.userId c \<and>
            createdAt c' = createdAt c \<and>
            length (conversations (addMessage now m st)) = length (conversations st) \<and>
            (\<forall>i < length (conversations st).
               conversations (addMessage now m st) ! i =
                 (if Conversation.id (conversations st ! i) = Conversation.id c then c'
                  else conversations st ! i)))) \<and>
   user (addMessage now m st) = user st \<and>
   isLoading (addMessage now m st) = isLoading st \<and>
   AppState.error (addMessage now m st) = AppState.error st"
proof (intro conjI allI impI)
  assume "currentConversation st = None"
  then show "addMessage now m st = st" by (simp add: addMessage_def)
next
  fix c assume c: "currentConversation st = Some c"
  let ?c' = "c\<lparr>messages := messages c @ [m], updatedAt := now\<rparr>"
  have "currentConversation (addMessage now m st) = Some ?c'"
    using c by (rule addMessage_current)
  moreover have "conversations (addMessage now m st) =
      map (\<lambda>conv. if Conversation.id conv = Conversation.id c then ?c' else conv) (conversations st)"
    using c by (rule addMessage_conversations)
  ultimately show "\<exists>c'. currentConversation (addMessage now m st) = Some c' \<and>
            messages c' = messages c @ [m] \<and>
            Conversation.id c' = Conversation.id c \<and>
            Conversation.userId c' = Conversation.userId c \<and>
            createdAt c' = createdAt c \<and>
            length (conversations (addMessage now m st)) = length (conversations st) \<and>
            (\<forall>i < length (conversations st).
               conversations (addMessage now m st) ! i =
                 (if Conversation.id (conversations st ! i) = Conversation.id c then c'
                  else conversations st ! i))"
    by simp
qed (simp_all add: addMessage_other)

text \<open>
  Adding a message to the store right after registration changes nothing; adding it after
  a conversation was opened makes it the only message of that conversation.
\<close>

theorem addMessage_frame_witness:
  "currentConversation example_state = None \<and>
   addMessage 2000 (userMessage example_env ''hello'') example_state = example_state \<and>
   currentConversation example_chat = Some (createNewConversation example_env (Some example_user)) \<and>
   messages (the (currentConversation
      (addMessage 2000 (userMessage example_env ''hello'') example_chat)))
     = [userMessage example_env ''hello''] \<and>
   user (addMessage 2000 (userMessage example_env ''hello'') example_chat) = Some example_user"
  using addMessage_frame [of example_state 2000 "userMessage example_env ''hello''"]
    addMessage_frame [of example_chat 2000 "userMessage example_env ''hello''"]
  by (auto simp: example_chat_def example_state_def addConversation_def setUser_def
      initialState_def createNewConversation_def)


section \<open>Properties of the chat input\<close>

lemma dropWhile_all_iff: "dropWhile P xs = [] \<longleftrightarrow> list_all P xs"
  by (induction xs) auto

lemma trim_empty_iff: "trim s = [] \<longleftrightarrow> list_all isWhiteSpace s"
proof -
  have "trim s = [] \<longleftrightarrow> dropWhile isWhiteSpace (rev (dropWhile isWhiteSpace s)) = []"
    by (simp add: trim_def)
  also have "\<dots> \<longleftrightarrow> list_all isWhiteSpace (dropWhile isWhiteSpace s)"
    by (simp add: dropWhile_all_iff list_all_iff)
  also have "\<dots> \<longleftrightarrow> list_all isWhiteSpace s"
    by (induction s) auto
  finally show ?thesis .
qed

lemma trim_decomp:
  "\<exists>l r. s = l @ trim s @ r \<and> list_all isWhiteSpace l \<and> list_all isWhiteSpace r"
proof -
  let ?l = "takeWhile isWhiteSpace s"
  let ?m = "dropWhile isWhiteSpace s"
  let ?r = "rev (takeWhile isWhiteSpace (rev ?m))"
  have "rev ?m = takeWhile isWhiteSpace (rev ?m) @ dropWhile isWhiteSpace (rev ?m)"
    by simp
  then have "?m = trim s @ ?r"
    unfolding trim_def by (metis rev_append rev_rev_ident)
  then have "s = ?l @ trim s @ ?r"
    by (metis takeWhile_dropWhile_id)
  moreover have "list_all isWhiteSpace ?l"
    by (simp add: list_all_iff) (meson set_takeWhileD)
  moreover have "list_all isWhiteSpace ?r"
    by (simp add: list_all_iff) (meson set_takeWhileD)
  ultimately show ?thesis by blast
qed

lemma last_dropWhile: "dropWhile P xs \<noteq> [] \<Longrightarrow> last (dropWhile P xs) = last xs"
  by (metis last_appendR takeWhile_dropWhile_id)

lemma trim_ends:
  assumes "trim s \<noteq> []"
  shows "\<not> isWhiteSpace (hd (trim s)) \<and> \<not> isWhiteSpace (last (trim s))"
proof -
  let ?m = "dropWhile isWhiteSpace s"
  let ?d = "dropWhile isWhiteSpace (rev ?m)"
  have ne: "?d \<noteq> []" using assms by (simp add: trim_def)
  then have l: "\<not> isWhiteSpace (hd ?d)" by (rule hd_dropWhile)
  have "last (trim s) = hd ?d" using ne by (simp add: trim_def last_rev)
  with l have A: "\<not> isWhiteSpace (last (trim s))" by simp
  have mne: "?m \<noteq> []"
    using ne by (metis dropWhile.simps(1) rev.simps(1))
  then have hm: "\<not> isWhiteSpace (hd ?m)" by (rule hd_dropWhile)
  have "hd (trim s) = last ?d" using ne by (simp add: trim_def hd_rev)
  also have "\<dots> = last (rev ?m)" using ne by (rule last_dropWhile)
  also have "\<dots> = hd ?m" using mne by (simp add: last_rev)
  finally have "\<not> isWhiteSpace (hd (trim s))" using hm by simp
  with A show ?thesis by simp
qed

text \<open>
  Claim C9. \<open>handleSubmit\<close> calls \<open>onSendMessage\<close> exactly once, with the trimmed text,
  if and only if the trimmed text is not empty and neither \<open>isLoading\<close> nor \<open>disabled\<close>
  holds, and then the input is reset to the empty string; for a text of white space only,
  or while loading or disabled, \<open>onSendMessage\<close> is not called and the input keeps its
  text. \<open>canSend\<close> holds exactly when a call is made. The trimmed text is the text without
  a prefix and a suffix of white space, and it neither begins nor ends with white
  space.
\<close>

theorem ChatInput_handleSubmit_sends:
  "(fst (ChatInput_handleSubmit loading disabled msg) = [trim msg]
      \<longleftrightarrow> trim msg \<noteq> [] \<and> \<not> loading \<and> \<not> disabled) \<and>
   (trim msg \<noteq> [] \<and> \<not> loading \<and> \<not> disabled
      \<longrightarrow> ChatInput_handleSubmit loading disabled msg = ([trim msg], [])) \<and>
   (list_all isWhiteSpace msg \<or> loading \<or> disabled
      \<longrightarrow> ChatInput_handleSubmit loading disabled msg = ([], msg)) \<and>
   (canSend loading disabled msg \<longleftrightarrow> fst (ChatInput_handleSubmit loading disabled msg) \<noteq> []) \<and>
   (\<exists>l r. msg = l @ trim msg @ r \<and> list_all isWhiteSpace l \<and> list_all isWhiteSpace r) \<and>
   (trim msg \<noteq> [] \<longrightarrow>
      \<not> isWhiteSpace (hd (trim msg)) \<and> \<not> isWhiteSpace (last (trim msg)))"
proof -
  have "(fst (ChatInput_handleSubmit loading disabled msg) = [trim msg]
      \<longleftrightarrow> trim msg \<noteq> [] \<and> \<not> loading \<and> \<not> disabled) \<and>
   (trim msg \<noteq> [] \<and> \<not> loading \<and> \<not> disabled
      \<longrightarrow> ChatInput_handleSubmit loading disabled msg = ([trim msg], [])) \<and>
   (list_all isWhiteSpace msg \<or> loading \<or> disabled
      \<longrightarrow> ChatInput_handleSubmit loading disabled msg = ([], msg)) \<and>
   (canSend loading disabled msg \<longleftrightarrow> fst (ChatInput_handleSubmit loading disabled msg) \<noteq> [])"
    by (auto simp: ChatInput_handleSubmit_def canSend_def trim_empty_iff)
  with trim_decomp [of msg] trim_ends [of msg] show ?thesis by blast
qed

text \<open>
  A padded word is sent trimmed; blanks are not sent; nothing is sent while loading.
\<close>

theorem ChatInput_handleSubmit_sends_witness:
  "trim ''  hello '' = ''hello'' \<and>
   ChatInput_handleSubmit False False ''  hello '' = ([''hello''], []) \<and>
   list_all isWhiteSpace ''   '' \<and>
   ChatInput_handleSubmit False False ''   '' = ([], ''   '') \<and>
   ChatInput_handleSubmit True False ''hello'' = ([], ''hello'')"
  using ChatInput_handleSubmit_sends [of False False "''  hello ''"]
    ChatInput_handleSubmit_sends [of False False "''   ''"]
    ChatInput_handleSubmit_sends [of True False "''hello''"]
  by (simp add: trim_def isWhiteSpace_def)


section \<open>Properties of the registration form\<close>

lemma rx_test_One:
  "rx_test (One p # r) s \<longleftrightarrow> (\<exists>c cs. s = c # cs \<and> p c \<and> rx_test r cs)"
  by (cases s) auto

lemma rx_test_OneOrMore:
  "rx_test (OneOrMore p # r) s \<longleftrightarrow>
     (\<exists>a b. s = a @ b \<and> a \<noteq> [] \<and> list_all p a \<and> rx_test r b)"
proof (induction s)
  case Nil
  then show ?case by simp
next
  case (Cons c cs)
  show ?case
  proof
    assume "rx_test (OneOrMore p # r) (c # cs)"
    then have pc: "p c" and alt: "rx_test (OneOrMore p # r) cs \<or> rx_test r cs"
      by simp_all
    from alt show "\<exists>a b. c # cs = a @ b \<and> a \<noteq> [] \<and> list_all p a \<and> rx_test r b"
    proof
      assume "rx_test (OneOrMore p # r) cs"
      with Cons.IH obtain a b where "cs = a @ b" "list_all p a" "rx_test r b"
        by blast
      with pc have "c # cs = (c # a) @ b \<and> c # a \<noteq> [] \<and> list_all p (c # a) \<and> rx_test r b"
        by simp
      then show ?thesis by blast
    next
      assume "rx_test r cs"
      with pc have "c # cs = [c] @ cs \<and> [c] \<noteq> [] \<and> list_all p [c] \<and> rx_test r cs"
        by simp
      then show ?thesis by blast
    qed
  next
    assume "\<exists>a b. c # cs = a @ b \<and> a \<noteq> [] \<and> list_all p a \<and> rx_test r b"
    then obtain a b where ab: "c # cs = a @ b" "a \<noteq> []" "list_all p a" "rx_test r b"
      by blast
    then obtain a' where a: "a = c # a'" by (cases a) auto
    with ab have pc: "p c" and cs: "cs = a' @ b" and pa': "list_all p a'" by simp_all
    show "rx_test (OneOrMore p # r) (c # cs)"
    proof (cases "a' = []")
      case True
      with cs ab pc show ?thesis by simp
    next
      case False
      with cs pa' ab have "rx_test (OneOrMore p # r) cs" using Cons.IH by blast
      with pc show ?thesis by simp
    qed
  qed
qed

text \<open>
  What the pattern accepts: a local part, \<open>@\<close>, a domain, a dot and a suffix, each of
  them non-empty and free of white space and of \<open>@\<close>.
\<close>

lemma rx_test_emailPattern:
  "rx_test emailPattern s \<longleftrightarrow>
     (\<exists>a b c. s = a @ ''@'' @ b @ ''.'' @ c \<and> a \<noteq> [] \<and> b \<noteq> [] \<and> c \<noteq> [] \<and>
        list_all notSpaceOrAt a \<and> list_all notSpaceOrAt b \<and> list_all notSpaceOrAt c)"
  unfolding emailPattern_def
  apply (simp only: rx_test_OneOrMore rx_test_One rx_test.simps(1))
  apply (rule iffI)
   apply (elim exE conjE)
   apply (simp)
   apply blast
  apply (elim exE conjE)
  apply simp
  apply (metis append_Nil2)
  done

lemma emailPattern_not_blank: "rx_test emailPattern s \<Longrightarrow> trim s \<noteq> []"
proof -
  assume "rx_test emailPattern s"
  then obtain a b c where "s = a @ ''@'' @ b @ ''.'' @ c"
    unfolding rx_test_emailPattern by blast
  then have "CHR ''@'' \<in> set s" by simp
  moreover have "\<not> isWhiteSpace (CHR ''@'')" by (simp add: isWhiteSpace_def)
  ultimately have "\<not> list_all isWhiteSpace s" by (auto simp: list_all_iff)
  then show ?thesis by (simp add: trim_empty_iff)
qed

text \<open>
  Claim C10. \<open>validateForm\<close> returns true if and only if the trimmed name has at least two
  characters and the email matches the pattern; it records an error for the name exactly
  when the name fails, and an error for the email exactly when the email fails;
  \<open>handleSubmit\<close> calls \<open>onRegister\<close>, once and with the form data, only when
  \<open>validateForm\<close> returns true.
\<close>

theorem validateForm_iff:
  "(fst (validateForm formData) \<longleftrightarrow>
      2 \<le> length (trim (RegistrationRequest.name formData)) \<and>
      rx_test emailPattern (RegistrationRequest.email formData)) \<and>
   (RegistrationErrors.name (snd (validateForm formData)) \<noteq> None \<longleftrightarrow>
      length (trim (RegistrationRequest.name formData)) < 2) \<and>
   (RegistrationErrors.email (snd (validateForm formData)) \<noteq> None \<longleftrightarrow>
      \<not> rx_test emailPattern (RegistrationRequest.email formData)) \<and>
   (fst (UserRegistration_handleSubmit formData) =
      (if fst (validateForm formData) then [formData] else []))"
  using emailPattern_not_blank [of "RegistrationRequest.email formData"]
  by (auto simp: validateForm_def UserRegistration_handleSubmit_def Let_def)

text \<open>
  A form that passes and is registered, and a form that fails on both fields.
\<close>

theorem validateForm_iff_witness:
  "fst (validateForm valid_form) \<and>
   fst (UserRegistration_handleSubmit valid_form) = [valid_form] \<and>
   \<not> fst (validateForm invalid_form) \<and>
   fst (UserRegistration_handleSubmit invalid_form) = [] \<and>
   RegistrationErrors.name (snd (validateForm invalid_form)) \<noteq> None \<and>
   RegistrationErrors.email (snd (validateForm invalid_form)) \<noteq> None"
  using validateForm_iff [of valid_form] validateForm_iff [of invalid_form]
  by (simp add: valid_form_def invalid_form_def trim_def isWhiteSpace_def emailPattern_def
      notSpaceOrAt_def)


section \<open>Properties of the chat handler\<close>

lemma js_or_nonempty: "b \<noteq> [] \<Longrightarrow> js_or a b \<noteq> []"
  by (simp add: js_or_def split: option.splits)

lemma js_or_Some: "s \<noteq> [] \<Longrightarrow> js_or (Some s) b = s"
  by (simp add: js_or_def)

lemma beforeRequest_current:
  "\<exists>c. currentConversation (beforeRequest env u messageContent st) = Some c \<and>
       messages c \<noteq> [] \<and> Conversation.id c = Conversation.id (conversationFor env u st)"
proof (cases "currentConversation st")
  case None
  have "currentConversation (addConversation (conversationFor env u st)
          (clearError (setLoading True st))) = Some (conversationFor env u st)"
    by (simp add: addConversation_def)
  from addMessage_current [OF this] None show ?thesis
    by (simp add: beforeRequest_def)
next
  case (Some c)
  then have "currentConversation (clearError (setLoading True st)) = Some c"
    by (simp add: clearError_def setLoading_def)
  from addMessage_current [OF this] Some show ?thesis
    by (simp add: beforeRequest_def conversationFor_def)
qed

lemma beforeRequest_error:
  "AppState.error (beforeRequest env u messageContent st) = None"
  by (simp add: beforeRequest_def addMessage_other addConversation_def clearError_def
      split: option.splits)

lemma catchError_result:
  assumes "currentConversation st = Some c" "msg \<noteq> []"
  shows "AppState.error (catchError env msg st) = Some msg \<and>
         (\<exists>c'. currentConversation (catchError env msg st) = Some c' \<and>
               messages c' = messages c @ [errorMessage env msg])"
proof -
  have "currentConversation (setError (Some (js_or (Some msg) ''Failed to send message'')) st)
          = Some c"
    using assms(1) by (simp add: setError_def)
  from addMessage_current [OF this] show ?thesis
    using assms(2) by (simp add: catchError_def addMessage_other setError_def js_or_Some)
qed

lemma responseContent_chain:
  "(ChatData.response d \<noteq> [] \<longrightarrow> responseContent d = ChatData.response d) \<and>
   (ChatData.response d = [] \<longrightarrow>
      (\<forall>m. math_response d = Some m \<longrightarrow>
         renewable_context m \<noteq> [] \<and> renewable_context m \<noteq> ''N/A'' \<longrightarrow>
         responseContent d = renewable_context m)) \<and>
   (ChatData.response d = [] \<longrightarrow>
      (\<forall>m. math_response d = Some m \<longrightarrow>
         renewable_context m = [] \<or> renewable_context m = ''N/A'' \<longrightarrow>
         explanation m \<noteq> [] \<and> explanation m \<noteq> ''N/A'' \<longrightarrow>
         responseContent d = explanation m)) \<and>
   (ChatData.response d = [] \<longrightarrow>
      (math_response d = None \<or>
       (\<exists>m. math_response d = Some m \<and>
          (renewable_context m = [] \<or> renewable_context m = ''N/A'') \<and>
          (explanation m = [] \<or> explanation m = ''N/A''))) \<longrightarrow>
      responseContent d = fallbackMessage)"
  by (auto simp: responseContent_def)

lemma success_result:
  assumes "currentConversation st = Some c"
  shows "\<exists>c'. currentConversation (setLoading False
            (addMessage now (assistantMessage env d) st)) = Some c' \<and>
          messages c' = messages c @ [assistantMessage env d]"
  using addMessage_current [OF assms, of now "assistantMessage env d"]
  by (simp add: setLoading_def)

lemma example_request:
  "user example_state = Some example_user \<and> trim ''hello'' \<noteq> [] \<and>
   currentConversation example_state = None"
  by (simp add: example_state_def setUser_def initialState_def trim_def isWhiteSpace_def)

lemma handleSendMessage_caught:
  assumes "user st = Some u" and "trim messageContent \<noteq> []" and "t \<noteq> []"
    and "afterResponse env
           (sendMessage post (chatRequest u (conversationFor env u st) messageContent))
           (beforeRequest env u messageContent st)
         = catchError env t (beforeRequest env u messageContent st)"
  shows "AppState.error (handleSendMessage env post messageContent st) = Some t \<and>
         isLoading (handleSendMessage env post messageContent st) = False \<and>
         (\<exists>c. currentConversation (handleSendMessage env post messageContent st) = Some c \<and>
              messages c \<noteq> [] \<and>
              sender (last (messages c)) = SenderAssistant \<and>
              ChatMessage.content (last (messages c)) =
                ''I apologize, but I encountered an error: '' @ t @ ''. Please try again.'')"
proof -
  obtain c3 where c3: "currentConversation (beforeRequest env u messageContent st) = Some c3"
    using beforeRequest_current by blast
  have h: "handleSendMessage env post messageContent st =
      setLoading False (catchError env t (beforeRequest env u messageContent st))"
    using assms by (simp add: handleSendMessage_def)
  from catchError_result [OF c3 assms(3), of env]
  obtain c' where "AppState.error (catchError env t (beforeRequest env u messageContent st)) = Some t"
    and "currentConversation (catchError env t (beforeRequest env u messageContent st)) = Some c'"
    and "messages c' = messages c3 @ [errorMessage env t]"
    by blast
  then show ?thesis unfolding h by (simp add: setLoading_def errorMessage_def)
qed


lemma afterResponse_unsuccessful:
  "post req = Resolved r \<Longrightarrow> \<not> (success r \<and> data r \<noteq> None) \<Longrightarrow>
   afterResponse env (sendMessage post req) st
     = catchError env (js_or (ApiResponse.error r) ''Failed to get response'') st"
  by (auto simp: afterResponse_def sendMessage_def split: option.splits)

lemma beforeRequest_messages:
  "\<exists>c. currentConversation (beforeRequest env u messageContent st) = Some c \<and>
       messages c = messages (conversationFor env u st) @ [userMessage env messageContent]"
proof (cases "currentConversation st")
  case None
  have "currentConversation (addConversation (conversationFor env u st)
          (clearError (setLoading True st))) = Some (conversationFor env u st)"
    by (simp add: addConversation_def)
  from addMessage_current [OF this] None show ?thesis
    by (simp add: beforeRequest_def)
next
  case (Some c)
  then have "currentConversation (clearError (setLoading True st)) = Some c"
    by (simp add: clearError_def setLoading_def)
  from addMessage_current [OF this] Some show ?thesis
    by (simp add: beforeRequest_def conversationFor_def)
qed

lemma conversationFor_messages:
  "messages (conversationFor env u st) =
     (case currentConversation st of None \<Rightarrow> [] | Some c0 \<Rightarrow> messages c0)"
  by (simp add: conversationFor_def createNewConversation_def split: option.splits)

lemma calculationDetails_cases:
  "(mathData = None \<longrightarrow> calculationDetails render mathData = []) \<and>
   (\<forall>m. mathData = Some m \<longrightarrow>
      (result m = None \<or> operation m = [] \<or> operation m = ''N/A'' \<or>
       operation m = ''information'' \<longrightarrow> calculationDetails render mathData = []) \<and>
      (\<forall>r. result m = Some r \<longrightarrow>
         operation m \<noteq> [] \<and> operation m \<noteq> ''N/A'' \<and> operation m \<noteq> ''information'' \<longrightarrow>
         (units m = None \<or> units m = Some [] \<longrightarrow>
            calculationDetails render mathData =
              [CHR 0x0A, CHR 0x0A] @ ''Calculation: '' @ operation m @ '' = '' @ render r) \<and>
         (\<forall>un. units m = Some un \<longrightarrow> un \<noteq> [] \<longrightarrow>
            calculationDetails render mathData =
              [CHR 0x0A, CHR 0x0A] @ ''Calculation: '' @ operation m @ '' = '' @ render r
              @ '' '' @ un)))"
  by (auto simp: calculationDetails_def split: option.splits)


text \<open>
  Claim C4, as amended. For a response that \<open>handleSendMessage\<close> treats as successful, the
  conversation ends up with its earlier messages followed by the user message and one
  assistant message. The text of the assistant message is the text chosen by the priority
  chain followed by the calculation details. The chain takes the main response when it is
  not empty; otherwise the \<open>renewable_context\<close> of the math response when it is present and
  not \<open>N/A\<close>; otherwise its \<open>explanation\<close> when that is present and not \<open>N/A\<close>; otherwise
  the fixed fallback text. The calculation details are empty unless the math response has
  a result and an operation that is not empty and neither \<open>N/A\<close> nor \<open>information\<close>; then
  they are two line feeds, \<open>Calculation: \<close>, the operation, \<open> = \<close> and the result, and a
  space and the units when units are set.
\<close>

theorem handleSendMessage_content_priority:
  assumes "user st = Some u" and "trim messageContent \<noteq> []"
    and "sendMessage post (chatRequest u (conversationFor env u st) messageContent) = Inr r"
    and "success r" and "data r = Some d"
  shows "\<exists>c sent shown chosen details.
           currentConversation (handleSendMessage env post messageContent st) = Some c \<and>
           messages c = (case currentConversation st of None \<Rightarrow> [] | Some c0 \<Rightarrow> messages c0)
                        @ [sent, shown] \<and>
           sender sent = SenderUser \<and> ChatMessage.content sent = messageContent \<and>
           sender shown = SenderAssistant \<and>
           mathResponse shown = math_response d \<and>
           ChatMessage.content shown = chosen @ details \<and>
           (ChatData.response d \<noteq> [] \<longrightarrow> chosen = ChatData.response d) \<and>
           (ChatData.response d = [] \<longrightarrow>
              (\<forall>m. math_response d = Some m \<longrightarrow>
                 renewable_context m \<noteq> [] \<and> renewable_context m \<noteq> ''N/A'' \<longrightarrow>
                 chosen = renewable_context m)) \<and>
           (ChatData.response d = [] \<longrightarrow>
              (\<forall>m. math_response d = Some m \<longrightarrow>
                 renewable_context m = [] \<or> renewable_context m = ''N/A'' \<longrightarrow>
                 explanation m \<noteq> [] \<and> explanation m \<noteq> ''N/A'' \<longrightarrow>
                 chosen = explanation m)) \<and>
           (ChatData.response d = [] \<longrightarrow>
              (math_response d = None \<or>
               (\<exists>m. math_response d = Some m \<and>
                  (renewable_context m = [] \<or> renewable_context m = ''N/A'') \<and>
                  (explanation m = [] \<or> explanation m = ''N/A''))) \<longrightarrow>
              chosen =
                ''I received your message but couldn't generate a proper response. Please try asking about renewable energy topics or math calculations.'') \<and>
           (math_response d = None \<longrightarrow> details = []) \<and>
           (\<forall>m. math_response d = Some m \<longrightarrow>
              (result m = None \<or> operation m = [] \<or> operation m = ''N/A'' \<or>
               operation m = ''information'' \<longrightarrow> details = []) \<and>
              (\<forall>x. result m = Some x \<longrightarrow>
                 operation m \<noteq> [] \<and> operation m \<noteq> ''N/A'' \<and>
                 operation m \<noteq> ''information'' \<longrightarrow>
                 (units m = None \<or> units m = Some [] \<longrightarrow>
                    details = [CHR 0x0A, CHR 0x0A] @ ''Calculation: '' @ operation m
                              @ '' = '' @ number_toString env x) \<and>
                 (\<forall>un. units m = Some un \<longrightarrow> un \<noteq> [] \<longrightarrow>
                    details = [CHR 0x0A, CHR 0x0A] @ ''Calculation: '' @ operation m
                              @ '' = '' @ number_toString env x @ '' '' @ un)))"
proof -
  obtain c3 where c3: "currentConversation (beforeRequest env u messageContent st) = Some c3"
    and m3: "messages c3 = messages (conversationFor env u st) @ [userMessage env messageContent]"
    using beforeRequest_messages by blast
  have h: "handleSendMessage env post messageContent st =
      setLoading False (addMessage (now_replyAdded env) (assistantMessage env d)
        (beforeRequest env u messageContent st))"
    using assms by (simp add: handleSendMessage_def afterResponse_def)
  obtain c' where c': "currentConversation (handleSendMessage env post messageContent st) = Some c'"
      "messages c' = messages c3 @ [assistantMessage env d]"
    using success_result [OF c3] h by metis
  let ?sent = "userMessage env messageContent"
  let ?shown = "assistantMessage env d"
  let ?details = "calculationDetails (number_toString env) (math_response d)"
  have 1: "currentConversation (handleSendMessage env post messageContent st) = Some c' \<and>
           messages c' = (case currentConversation st of None \<Rightarrow> [] | Some c0 \<Rightarrow> messages c0)
                        @ [?sent, ?shown] \<and>
           sender ?sent = SenderUser \<and> ChatMessage.content ?sent = messageContent \<and>
           sender ?shown = SenderAssistant \<and>
           mathResponse ?shown = math_response d \<and>
           ChatMessage.content ?shown = responseContent d @ ?details"
    using c' m3
    by (simp add: assistantMessage_def userMessage_def conversationFor_messages)
  note 2 = responseContent_chain [of d, unfolded fallbackMessage_def]
  note 3 = calculationDetails_cases [of "math_response d" "number_toString env"]
  show ?thesis
    apply (rule exI [of _ c'], rule exI [of _ ?sent], rule exI [of _ ?shown])
    apply (rule exI [of _ "responseContent d"], rule exI [of _ ?details])
    using 1 2 3 by blast
qed

text \<open>An answer with an empty text and no math response is shown as the fallback text.\<close>

theorem handleSendMessage_content_priority_witness:
  "ChatMessage.content (last (messages (the (currentConversation
      (handleSendMessage example_env backend_empty_answer ''hello'' example_state)))))
   = fallbackMessage"
proof -
  let ?d = "\<lparr>ChatData.response = [], math_response = None\<rparr> :: nat ChatData"
  let ?r = "\<lparr>success = True, data = Some ?d,
             ApiResponse.error = None, ApiResponse.message = None\<rparr>"
  have a: "user example_state = Some example_user" and b: "trim ''hello'' \<noteq> []"
    using example_request by simp_all
  have c: "sendMessage backend_empty_answer
             (chatRequest example_user (conversationFor example_env example_user example_state)
                ''hello'') = Inr ?r"
    by (simp add: sendMessage_def backend_empty_answer_def)
  have d: "success ?r" and e: "data ?r = Some ?d" by simp_all
  from handleSendMessage_content_priority [OF a b c d e]
  show ?thesis by (auto simp: fallbackMessage_def)
qed

text \<open>
  Claim C4 as stated fails when the math response names an operation: the text shown is the
  main response followed by the calculation, not the main response.
\<close>

theorem handleSendMessage_content_priority_counterexample:
  "ChatData.response sum_data \<noteq> [] \<and>
   ChatMessage.content (last (messages (the (currentConversation
      (handleSendMessage example_env backend_calculates ''2 + 2'' example_state)))))
     = ''The answer is 4.'' @ [CHR 0x0A, CHR 0x0A] @ ''Calculation: 2 + 2 = 4'' \<and>
   ChatMessage.content (last (messages (the (currentConversation
      (handleSendMessage example_env backend_calculates ''2 + 2'' example_state)))))
     \<noteq> ChatData.response sum_data"
proof -
  have u: "user example_state = Some example_user"
    using example_request by simp
  have t: "trim ''2 + 2'' \<noteq> []"
    by (simp add: trim_def isWhiteSpace_def)
  have h: "handleSendMessage example_env backend_calculates ''2 + 2'' example_state =
      setLoading False (addMessage (now_replyAdded example_env)
        (assistantMessage example_env sum_data)
        (beforeRequest example_env example_user ''2 + 2'' example_state))"
    using u t
    by (simp add: handleSendMessage_def afterResponse_def sendMessage_def
        backend_calculates_def)
  obtain c3 where c3: "currentConversation
      (beforeRequest example_env example_user ''2 + 2'' example_state) = Some c3"
    using beforeRequest_current by blast
  have n: "number_toString example_env 4 = ''4''"
    by (simp add: example_env_def toString_nat.simps)
  from addMessage_current [OF c3]
  have "ChatMessage.content (last (messages (the (currentConversation
      (handleSendMessage example_env backend_calculates ''2 + 2'' example_state)))))
     = ''The answer is 4.'' @ [CHR 0x0A, CHR 0x0A] @ ''Calculation: 2 + 2 = 4''"
    unfolding h
    by (simp add: setLoading_def assistantMessage_def sum_data_def responseContent_def
        calculationDetails_def n)
  then show ?thesis by (simp add: sum_data_def)
qed




text \<open>
  Claim C3, as amended. A chat call sends the JSON object with the keys \<open>message\<close>,
  \<open>userId\<close> and \<open>conversationId\<close>. A response is treated as successful exactly when
  \<open>success\<close> holds and \<open>data\<close> is present; its data then carry the response text and an
  optional math response, which is the only place of a confidence value, and the
  assistant message records both; a response that is not successful sets the error.
\<close>

theorem chat_call_shape:
  assumes "user st = Some u" and "trim messageContent \<noteq> []"
    and "post (chatRequest u (conversationFor env u st) messageContent) = Resolved r"
  shows "requestBody (chatRequest u (conversationFor env u st) messageContent) =
           [(''message'', messageContent), (''userId'', user_id u),
            (''conversationId'', Conversation.id (conversationFor env u st))] \<and>
         (success r \<and> data r \<noteq> None \<longrightarrow>
            (\<exists>d c. data r = Some d \<and>
               currentConversation (handleSendMessage env post messageContent st) = Some c \<and>
               messages c \<noteq> [] \<and>
               last (messages c) = assistantMessage env d \<and>
               mathResponse (last (messages c)) = math_response d \<and>
               map_option confidence (mathResponse (last (messages c))) = response_confidence d \<and>
               AppState.error (handleSendMessage env post messageContent st) = None)) \<and>
         (\<not> (success r \<and> data r \<noteq> None) \<longrightarrow>
            AppState.error (handleSendMessage env post messageContent st) \<noteq> None)"
proof (intro conjI impI)
  show "requestBody (chatRequest u (conversationFor env u st) messageContent) =
           [(''message'', messageContent), (''userId'', user_id u),
            (''conversationId'', Conversation.id (conversationFor env u st))]"
    by (simp add: requestBody_def chatRequest_def)
next
  assume ok: "success r \<and> data r \<noteq> None"
  then obtain d where d: "data r = Some d" by blast
  obtain c3 where c3: "currentConversation (beforeRequest env u messageContent st) = Some c3"
    using beforeRequest_current by blast
  have h: "handleSendMessage env post messageContent st =
      setLoading False (addMessage (now_replyAdded env) (assistantMessage env d)
        (beforeRequest env u messageContent st))"
    using assms ok d by (simp add: handleSendMessage_def afterResponse_def sendMessage_def)
  obtain c' where c': "currentConversation (handleSendMessage env post messageContent st) = Some c'"
      "messages c' = messages c3 @ [assistantMessage env d]"
    using success_result [OF c3] h by metis
  have e: "AppState.error (handleSendMessage env post messageContent st) = None"
    unfolding h by (simp add: setLoading_def addMessage_other beforeRequest_error)
  have "messages c' \<noteq> [] \<and> last (messages c') = assistantMessage env d \<and>
        mathResponse (last (messages c')) = math_response d \<and>
        map_option confidence (mathResponse (last (messages c'))) = response_confidence d"
    using c'(2) by (simp add: assistantMessage_def response_confidence_def)
  with d c'(1) e show "\<exists>d c. data r = Some d \<and>
               currentConversation (handleSendMessage env post messageContent st) = Some c \<and>
               messages c \<noteq> [] \<and>
               last (messages c) = assistantMessage env d \<and>
               mathResponse (last (messages c)) = math_response d \<and>
               map_option confidence (mathResponse (last (messages c))) = response_confidence d \<and>
               AppState.error (handleSendMessage env post messageContent st) = None"
    by blast
next
  assume "\<not> (success r \<and> data r \<noteq> None)"
  from handleSendMessage_caught
         [OF assms(1,2) js_or_nonempty
            afterResponse_unsuccessful [where post = post, OF assms(3) this]]
  show "AppState.error (handleSendMessage env post messageContent st) \<noteq> None"
    by simp
qed

text \<open>
  The request and the recorded answer for the backend that answers in plain text.
\<close>

theorem chat_call_shape_witness:
  "requestBody (chatRequest example_user
       (conversationFor example_env example_user example_state) ''hello'') =
     [(''message'', ''hello''), (''userId'', ''u1''),
      (''conversationId'', ''conv_1000_k3x9q2m1z'')] \<and>
   last (messages (the (currentConversation
      (handleSendMessage example_env backend_answers ''hello'' example_state))))
     = assistantMessage example_env plain_data"
proof -
  have a: "user example_state = Some example_user" and b: "trim ''hello'' \<noteq> []"
    using example_request by simp_all
  have c: "backend_answers
             (chatRequest example_user (conversationFor example_env example_user example_state)
                ''hello'') = Resolved plain_response"
    by (simp add: backend_answers_def)
  have d: "success plain_response \<and> data plain_response = Some plain_data"
    by (simp add: plain_response_def)
  have e: "Conversation.id (conversationFor example_env example_user example_state)
             = ''conv_1000_k3x9q2m1z''"
    using example_request
    by (simp add: conversationFor_def createNewConversation_def example_env_def) code_simp
  have f: "user_id example_user = ''u1''" by (simp add: example_user_def)
  from chat_call_shape [where post = backend_answers and env = example_env, OF a b c] d e f
  show ?thesis by auto
qed

text \<open>
  Claim C3 as stated fails: the request has no key \<open>project_scope\<close>, \<open>use_rag\<close> or
  \<open>history\<close>, and a response without a math response is successful although it carries no
  confidence value.
\<close>

theorem chat_call_shape_counterexample:
  "''project_scope'' \<notin> set (map fst (requestBody (chatRequest example_user
       (conversationFor example_env example_user example_state) ''hello''))) \<and>
   ''use_rag'' \<notin> set (map fst (requestBody (chatRequest example_user
       (conversationFor example_env example_user example_state) ''hello''))) \<and>
   ''history'' \<notin> set (map fst (requestBody (chatRequest example_user
       (conversationFor example_env example_user example_state) ''hello''))) \<and>
   success plain_response \<and> data plain_response = Some plain_data \<and>
   response_confidence plain_data = None \<and>
   AppState.error (handleSendMessage example_env backend_answers ''hello'' example_state) = None \<and>
   mathResponse (last (messages (the (currentConversation
      (handleSendMessage example_env backend_answers ''hello'' example_state))))) = None"
proof -
  have "currentConversation example_state = None" using example_request by simp
  then have c2: "currentConversation
      (addConversation (conversationFor example_env example_user example_state)
         (clearError (setLoading True example_state)))
      = Some (conversationFor example_env example_user example_state)"
    by (simp add: addConversation_def)
  have h: "handleSendMessage example_env backend_answers ''hello'' example_state =
      setLoading False (addMessage (now_replyAdded example_env)
        (assistantMessage example_env plain_data)
        (beforeRequest example_env example_user ''hello'' example_state))"
    using example_request
    by (simp add: handleSendMessage_def afterResponse_def sendMessage_def backend_answers_def
        plain_response_def)
  obtain c3 where c3: "currentConversation
      (beforeRequest example_env example_user ''hello'' example_state) = Some c3"
    using beforeRequest_current by blast
  from addMessage_current [OF c3]
  have "mathResponse (last (messages (the (currentConversation
      (handleSendMessage example_env backend_answers ''hello'' example_state))))) = None"
    unfolding h by (simp add: setLoading_def assistantMessage_def plain_data_def)
  moreover have "AppState.error
      (handleSendMessage example_env backend_answers ''hello'' example_state) = None"
    unfolding h by (simp add: setLoading_def addMessage_other beforeRequest_error)
  ultimately show ?thesis
    by (simp add: requestBody_def chatRequest_def plain_response_def plain_data_def
        response_confidence_def)
qed

end
